theory Spec2Isabelle
  imports Main "HOL-Library.Finite_Map" "HOL-Library.Sublist"
begin

section \<open>JavaScript values\<close>

text \<open>
  The server keeps its records as JSON. A JSON object is a finite map from keys to values
  (key order plays no part in any property stated here); numbers are the integers, which
  is what \<open>Date.now()\<close> produces and what the route parameter of a record denotes.
  A property that is absent (JavaScript's \<open>undefined\<close>) is \<open>None\<close>.
\<close>

datatype json =
  JNull
| JBool bool
| JNum int
| JStr string
| JArr "json list"
| JObj "(string, json) fmap"

type_synonym obj = "(string, json) fmap"

datatype exn = IOError | SyntaxError | TypeError

text \<open>JavaScript truthiness, as used by \<open>!title\<close>, \<open>type || "blog"\<close> and \<open>media && ...\<close>.\<close>

fun truthy :: "json option \<Rightarrow> bool" where
  "truthy None = False"
| "truthy (Some JNull) = False"
| "truthy (Some (JBool b)) = b"
| "truthy (Some (JNum n)) = (n \<noteq> 0)"
| "truthy (Some (JStr s)) = (s \<noteq> [])"
| "truthy (Some (JArr xs)) = True"
| "truthy (Some (JObj m)) = True"

text \<open>\<open>x || d\<close> for a default \<open>d\<close>.\<close>

definition or_else :: "json option \<Rightarrow> json \<Rightarrow> json" where
  "or_else x d = (if truthy x then the x else d)"

text \<open>
  Property access \<open>p.k\<close> for the keys the handlers read (\<open>id\<close>, \<open>media\<close>): it throws a
  TypeError on \<open>null\<close>, reads the field of an object, and is \<open>undefined\<close> on every other
  value (numbers, strings, booleans and arrays have no such property).
\<close>

fun get_prop :: "json \<Rightarrow> string \<Rightarrow> exn + json option" where
  "get_prop JNull k = Inl TypeError"
| "get_prop (JObj m) k = Inr (fmlookup m k)"
| "get_prop v k = Inr None"

text \<open>
  \<open>posts.unshift\<close>, \<open>posts.find\<close>, \<open>posts.findIndex\<close> and \<open>posts.filter\<close> exist on arrays only:
  the call throws a TypeError when the parsed file holds anything else.
\<close>

fun as_array :: "json \<Rightarrow> exn + json list" where
  "as_array (JArr xs) = Inr xs"
| "as_array v = Inl TypeError"

text \<open>\<open>posts.findIndex((p) => p.id === id)\<close>; \<open>None\<close> is the result \<open>-1\<close>.\<close>

fun findIndex :: "json list \<Rightarrow> int \<Rightarrow> exn + nat option" where
  "findIndex [] i = Inr None"
| "findIndex (p # ps) i =
     (case get_prop p ''id'' of
        Inl e \<Rightarrow> Inl e
      | Inr v \<Rightarrow>
          if v = Some (JNum i) then Inr (Some 0)
          else (case findIndex ps i of
                  Inl e \<Rightarrow> Inl e
                | Inr None \<Rightarrow> Inr None
                | Inr (Some n) \<Rightarrow> Inr (Some (Suc n))))"

text \<open>\<open>posts.find((p) => p.id === id)\<close>; \<open>None\<close> is \<open>undefined\<close>.\<close>

fun find_by_id :: "json list \<Rightarrow> int \<Rightarrow> exn + json option" where
  "find_by_id [] i = Inr None"
| "find_by_id (p # ps) i =
     (case get_prop p ''id'' of
        Inl e \<Rightarrow> Inl e
      | Inr v \<Rightarrow> if v = Some (JNum i) then Inr (Some p) else find_by_id ps i)"

text \<open>\<open>posts.filter((p) => p.id !== id)\<close>: the callback runs on every element.\<close>

fun filter_by_id :: "json list \<Rightarrow> int \<Rightarrow> exn + json list" where
  "filter_by_id [] i = Inr []"
| "filter_by_id (p # ps) i =
     (case get_prop p ''id'' of
        Inl e \<Rightarrow> Inl e
      | Inr v \<Rightarrow>
          (case filter_by_id ps i of
             Inl e \<Rightarrow> Inl e
           | Inr qs \<Rightarrow> Inr (if v \<noteq> Some (JNum i) then p # qs else qs)))"

text \<open>
  The own properties that \<open>{...p}\<close> copies. The handler spreads only an element whose
  \<open>id\<close> matched, which is an object.
\<close>

fun own_props :: "json \<Rightarrow> obj" where
  "own_props (JObj m) = m"
| "own_props v = fmempty"

section \<open>Strings\<close>

text \<open>Decimal rendering of a number inside a template literal.\<close>

fun digits :: "nat \<Rightarrow> string" where
  "digits n =
     (if n < 10 then [''0123456789'' ! n]
      else digits (n div 10) @ [''0123456789'' ! (n mod 10)])"

declare digits.simps [simp del]

definition show_int :: "int \<Rightarrow> string" where
  "show_int i = (if i < 0 then CHR ''-'' # digits (nat (- i)) else digits (nat i))"

text \<open>\<open>s.split(sep)\<close> for a non-empty separator: the pieces between its occurrences, left to right.\<close>

fun split_acc :: "string \<Rightarrow> string \<Rightarrow> string \<Rightarrow> string list" where
  "split_acc sep acc [] = [rev acc]"
| "split_acc sep acc (c # cs) =
     (if prefix sep (c # cs) then rev acc # split_acc sep [] (drop (length sep - 1) cs)
      else split_acc sep (c # acc) cs)"

definition split :: "string \<Rightarrow> string \<Rightarrow> string list" where
  "split s sep = split_acc sep [] s"

text \<open>\<open>media.split(";base64,").pop()\<close>: the last piece.\<close>

definition base64Data :: "string \<Rightarrow> string" where
  "base64Data media = last (split media '';base64,'')"

text \<open>
  \<open>originalname.replace(/\s+/g, "_")\<close>: every maximal run of white space becomes one
  underscore. A character here is a code unit below 256; the ones that \<open>\s\<close> matches
  among them are the six ASCII ones and the no-break space U+00A0.
\<close>

definition is_space :: "char \<Rightarrow> bool" where
  "is_space c =
     (c \<in> set [CHR '' '', CHR 0x09, CHR 0x0A, CHR 0x0B, CHR 0x0C, CHR 0x0D, CHR 0xA0])"

function replace_spaces :: "string \<Rightarrow> string" where
  "replace_spaces [] = []"
| "replace_spaces (c # cs) =
     (if is_space c then CHR ''_'' # replace_spaces (dropWhile is_space cs)
      else c # replace_spaces cs)"
  by pat_completeness auto
termination
  by (relation "measure length") (auto simp: length_dropWhile_le less_Suc_eq_le)

section \<open>Paths\<close>

text \<open>
  An absolute, normalised path is the list of its segments. \<open>path.join(base, rel)\<close> for
  such a base walks the segments of \<open>rel\<close>: empty segments and \<open>.\<close> are skipped, \<open>..\<close>
  drops the last segment (and stays at the root). The result keeps a trailing separator
  of \<open>rel\<close>, returned as the second component.
\<close>

type_synonym path = "string list"

fun segments :: "string \<Rightarrow> string list" where
  "segments [] = [[]]"
| "segments (c # cs) =
     (if c = CHR ''/'' then [] # segments cs
      else (c # hd (segments cs)) # tl (segments cs))"

fun normalise :: "path \<Rightarrow> string list \<Rightarrow> path" where
  "normalise p [] = p"
| "normalise p (s # ss) =
     (if s = [] \<or> s = ''.'' then normalise p ss
      else if s = ''..'' then normalise (butlast p) ss
      else normalise (p @ [s]) ss)"

definition path_join :: "path \<Rightarrow> string \<Rightarrow> path \<times> bool" where
  "path_join base rel =
     (let p = normalise base (segments rel)
      in (p, p \<noteq> [] \<and> rel \<noteq> [] \<and> last rel = CHR ''/''))"

section \<open>The file system and the console\<close>

text \<open>
  A file holds JSON text (kept as the value it parses to), the bytes of an upload, or the
  bytes that a base64 text decodes to (kept as that text). The tree maps a path to a
  directory or a file; the root always exists. \<open>faulty\<close> lists the operations that the
  operating system refuses (permissions, a busy file, a full disk).
\<close>

datatype content = JsonText json | Raw string | Base64 string

datatype node = Dir | File content

datatype io = Read | Write | Remove

datatype logline = Info string | Error string

record world =
  tree :: "path \<Rightarrow> node option"
  faulty :: "(io \<times> path) set"
  console :: "logline list"

definition node_at :: "world \<Rightarrow> path \<Rightarrow> node option" where
  "node_at w p = (if p = [] then Some Dir else tree w p)"

text \<open>\<open>fs.pathExists\<close>: a path with a trailing separator names a directory only.\<close>

definition pathExists :: "world \<Rightarrow> path \<times> bool \<Rightarrow> bool" where
  "pathExists w fp =
     (case node_at w (fst fp) of
        None \<Rightarrow> False
      | Some Dir \<Rightarrow> True
      | Some (File c) \<Rightarrow> \<not> snd fp)"

text \<open>\<open>fs.writeFile\<close>: the parent must be a directory and the target must not be one.\<close>

definition writeFile :: "path \<Rightarrow> content \<Rightarrow> world \<Rightarrow> (exn + unit) \<times> world" where
  "writeFile p c w =
     (if (Write, p) \<in> faulty w \<or> p = [] \<or> node_at w (butlast p) \<noteq> Some Dir
         \<or> node_at w p = Some Dir
      then (Inl IOError, w)
      else (Inr (), w\<lparr>tree := (tree w)(p \<mapsto> File c)\<rparr>))"

text \<open>\<open>fs.writeJson\<close>; the \<open>spaces\<close> option only changes the layout of the text.\<close>

definition writeJson :: "path \<Rightarrow> json \<Rightarrow> world \<Rightarrow> (exn + unit) \<times> world" where
  "writeJson p j w = writeFile p (JsonText j) w"

definition readJson :: "path \<Rightarrow> world \<Rightarrow> exn + json" where
  "readJson p w =
     (if (Read, p) \<in> faulty w then Inl IOError
      else (case node_at w p of
              Some (File (JsonText j)) \<Rightarrow> Inr j
            | Some (File c) \<Rightarrow> Inl SyntaxError
            | other \<Rightarrow> Inl IOError))"

text \<open>\<open>fs.remove\<close>: removes the path and everything below it.\<close>

definition remove :: "path \<Rightarrow> world \<Rightarrow> (exn + unit) \<times> world" where
  "remove p w =
     (if (Remove, p) \<in> faulty w then (Inl IOError, w)
      else (Inr (), w\<lparr>tree := (\<lambda>q. if prefix p q then None else tree w q)\<rparr>))"

definition console_log :: "string \<Rightarrow> world \<Rightarrow> world" where
  "console_log s w = w\<lparr>console := console w @ [Info s]\<rparr>"

definition console_error :: "string \<Rightarrow> world \<Rightarrow> world" where
  "console_error s w = w\<lparr>console := console w @ [Error s]\<rparr>"

section \<open>The server\<close>

text \<open>
  \<open>dirname\<close> is the directory of the server's module (\<open>__dirname\<close>), given by the
  deployment. The two collections live in one JSON file each; the handlers of the two
  collections differ in their required fields, the shape of the new record and the texts
  of their messages.
\<close>

datatype collection = Posts | Projects

definition UPLOAD_DIR :: "path \<Rightarrow> path" where
  "UPLOAD_DIR dirname = dirname @ [''uploads'']"

definition POSTS_FILE :: "path \<Rightarrow> path" where
  "POSTS_FILE dirname = dirname @ [''posts.json'']"

definition PROJECTS_FILE :: "path \<Rightarrow> path" where
  "PROJECTS_FILE dirname = dirname @ [''projects.json'']"

fun data_file :: "path \<Rightarrow> collection \<Rightarrow> path" where
  "data_file dirname Posts = POSTS_FILE dirname"
| "data_file dirname Projects = PROJECTS_FILE dirname"

record response =
  status :: nat
  body :: json

definition error_body :: "string \<Rightarrow> json" where
  "error_body msg = JObj (fmap_of_list [(''error'', JStr msg)])"

text \<open>
  \<open>catch (err)\<close> of a handler: the error is written to the console and the request is
  answered with status 500. Console lines keep their fixed text, without the pictograph
  and the interpolated value.
\<close>

definition failed :: "string \<Rightarrow> string \<Rightarrow> world \<Rightarrow> response \<times> world" where
  "failed logged msg w = (\<lparr>status = 500, body = error_body msg\<rparr>, console_error logged w)"

subsection \<open>loadData\<close>

definition loadData :: "path \<Rightarrow> world \<Rightarrow> (exn + json) \<times> world" where
  "loadData filePath w =
     (if \<not> pathExists w (filePath, False) then
        (case writeJson filePath (JArr []) w of
           (Inl e, w') \<Rightarrow> (Inl e, w')
         | (Inr u, w') \<Rightarrow> (readJson filePath w', w'))
      else (readJson filePath w, w))"

subsection \<open>GET /posts and GET /projects\<close>

fun read_failed_msg :: "collection \<Rightarrow> string" where
  "read_failed_msg Posts = ''Failed to read posts''"
| "read_failed_msg Projects = ''Failed to read projects''"

fun read_failed_log :: "collection \<Rightarrow> string" where
  "read_failed_log Posts = ''Error reading posts:''"
| "read_failed_log Projects = ''Error reading projects:''"

definition get_handler :: "path \<Rightarrow> collection \<Rightarrow> world \<Rightarrow> response \<times> world" where
  "get_handler dirname c w =
     (case loadData (data_file dirname c) w of
        (Inl e, w') \<Rightarrow> failed (read_failed_log c) (read_failed_msg c) w'
      | (Inr posts, w') \<Rightarrow> (\<lparr>status = 200, body = posts\<rparr>, w'))"

subsection \<open>POST /posts and POST /projects\<close>

text \<open>
  The readings of the clock that one request takes: \<open>Date.now()\<close> in the file name that
  multer chooses, \<open>Date.now()\<close> in the name of an inline image, \<open>Date.now()\<close> for the
  \<open>id\<close>, and \<open>new Date().toISOString()\<close> for \<open>createdAt\<close>.
\<close>

record clock =
  upload_now :: int
  file_now :: int
  id_now :: int
  iso_now :: string

text \<open>
  A request carries the parsed body and, when it is a multipart request with a file part
  named \<open>media\<close>, that part: its base name as multer receives it, and its bytes.
\<close>

record upload =
  originalname :: string
  bytes :: string

record request =
  req_body :: obj
  media_part :: "upload option"

text \<open>
  \<open>upload.single("media")\<close> with the disk storage of the server: the file part is stored
  under the uploads directory before the handler runs, and its name becomes
  \<open>req.file.filename\<close>. The name that multer receives is a base name, without a path
  separator, so joining it to the uploads directory appends one segment.
\<close>

definition upload_single ::
  "path \<Rightarrow> int \<Rightarrow> upload option \<Rightarrow> world \<Rightarrow> (exn + string option) \<times> world" where
  "upload_single dirname now part w =
     (case part of
        None \<Rightarrow> (Inr None, w)
      | Some u \<Rightarrow>
          (let filename = show_int now @ ''-'' @ replace_spaces (originalname u)
           in (case writeFile (UPLOAD_DIR dirname @ [filename]) (Raw (bytes u)) w of
                 (Inl e, w') \<Rightarrow> (Inl e, w')
               | (Inr x, w') \<Rightarrow> (Inr (Some filename), w'))))"

fun required :: "collection \<Rightarrow> obj \<Rightarrow> bool" where
  "required Posts b = (truthy (fmlookup b ''title'') \<and> truthy (fmlookup b ''content''))"
| "required Projects b = truthy (fmlookup b ''title'')"

fun required_msg :: "collection \<Rightarrow> string" where
  "required_msg Posts = ''Title and content are required''"
| "required_msg Projects = ''Project title is required''"

fun add_failed_msg :: "collection \<Rightarrow> string" where
  "add_failed_msg Posts = ''Failed to add post''"
| "add_failed_msg Projects = ''Failed to upload project''"

fun add_failed_log :: "collection \<Rightarrow> string" where
  "add_failed_log Posts = ''Error adding post:''"
| "add_failed_log Projects = ''Error adding project:''"

fun added_log :: "collection \<Rightarrow> string" where
  "added_log Posts = ''Added new post:''"
| "added_log Projects = ''Added new project:''"

text \<open>
  The media reference of the new record: the uploaded file when there is one, else an
  inline image (a string that starts with \<open>data:image\<close>), which is written to the uploads
  directory, else \<open>null\<close>. A truthy \<open>media\<close> that is not a string has no \<open>startsWith\<close>.
\<close>

definition resolve_media ::
  "path \<Rightarrow> int \<Rightarrow> string option \<Rightarrow> json option \<Rightarrow> world \<Rightarrow> (exn + json) \<times> world" where
  "resolve_media dirname now file media w =
     (case file of
        Some name \<Rightarrow> (Inr (JStr (''/uploads/'' @ name)), w)
      | None \<Rightarrow>
          if truthy media then
            (case media of
               Some (JStr m) \<Rightarrow>
                 if prefix ''data:image'' m then
                   (let filename = show_int now @ ''.png'';
                        filePath = fst (path_join (UPLOAD_DIR dirname) filename)
                    in (case writeFile filePath (Base64 (base64Data m)) w of
                          (Inl e, w') \<Rightarrow> (Inl e, w')
                        | (Inr x, w') \<Rightarrow> (Inr (JStr (''/uploads/'' @ filename)), w')))
                 else (Inr JNull, w)
             | other \<Rightarrow> (Inl TypeError, w))
          else (Inr JNull, w))"

text \<open>\<open>newPost\<close> and \<open>newProject\<close>; the required fields are present when they are built.\<close>

fun new_record :: "collection \<Rightarrow> clock \<Rightarrow> obj \<Rightarrow> json \<Rightarrow> json" where
  "new_record Posts clk b mediaUrl =
     JObj (fmap_of_list
       [(''id'', JNum (id_now clk)),
        (''title'', the (fmlookup b ''title'')),
        (''content'', the (fmlookup b ''content'')),
        (''type'', or_else (fmlookup b ''type'') (JStr ''blog'')),
        (''link'', or_else (fmlookup b ''link'') JNull),
        (''blogLink'', or_else (fmlookup b ''blogLink'') JNull),
        (''media'', mediaUrl),
        (''createdAt'', JStr (iso_now clk))])"
| "new_record Projects clk b mediaUrl =
     JObj (fmap_of_list
       [(''id'', JNum (id_now clk)),
        (''title'', the (fmlookup b ''title'')),
        (''media'', mediaUrl),
        (''link'', or_else (fmlookup b ''link'') JNull),
        (''createdAt'', JStr (iso_now clk))])"

definition post_handler ::
  "path \<Rightarrow> collection \<Rightarrow> clock \<Rightarrow> obj \<Rightarrow> string option \<Rightarrow> world \<Rightarrow> response \<times> world" where
  "post_handler dirname c clk b file w =
     (if \<not> required c b then (\<lparr>status = 400, body = error_body (required_msg c)\<rparr>, w)
      else
        (case resolve_media dirname (file_now clk) file (fmlookup b ''media'') w of
           (Inl e, w1) \<Rightarrow> failed (add_failed_log c) (add_failed_msg c) w1
         | (Inr mediaUrl, w1) \<Rightarrow>
             (let newPost = new_record c clk b mediaUrl
              in (case loadData (data_file dirname c) w1 of
                    (Inl e, w2) \<Rightarrow> failed (add_failed_log c) (add_failed_msg c) w2
                  | (Inr loaded, w2) \<Rightarrow>
                      (case as_array loaded of
                         Inl e \<Rightarrow> failed (add_failed_log c) (add_failed_msg c) w2
                       | Inr posts \<Rightarrow>
                           (case writeJson (data_file dirname c) (JArr (newPost # posts)) w2 of
                              (Inl e, w3) \<Rightarrow> failed (add_failed_log c) (add_failed_msg c) w3
                            | (Inr u, w3) \<Rightarrow>
                                (\<lparr>status = 201, body = newPost\<rparr>,
                                 console_log (added_log c) w3)))))))"

text \<open>
  The route: multer first, then the handler. When multer fails the handler does not run
  and the framework answers with status 500.
\<close>

definition post_route ::
  "path \<Rightarrow> collection \<Rightarrow> clock \<Rightarrow> request \<Rightarrow> world \<Rightarrow> response \<times> world" where
  "post_route dirname c clk req w =
     (case upload_single dirname (upload_now clk) (media_part req) w of
        (Inl e, w') \<Rightarrow> (\<lparr>status = 500, body = JStr ''Internal Server Error''\<rparr>, w')
      | (Inr file, w') \<Rightarrow> post_handler dirname c clk (req_body req) file w')"

subsection \<open>PUT /posts/:id\<close>

text \<open>
  \<open>ident\<close> is \<open>Number(req.params.id)\<close>, \<open>updates\<close> the parsed body and \<open>stamp\<close> the reading
  \<open>new Date().toISOString()\<close>. The merged record is
  \<open>{ ...posts[index], ...updates, updatedAt: stamp }\<close>.
\<close>

definition merge_record :: "json \<Rightarrow> obj \<Rightarrow> string \<Rightarrow> json" where
  "merge_record p updates stamp =
     JObj (fmupd ''updatedAt'' (JStr stamp) (own_props p ++\<^sub>f updates))"

definition put_handler :: "path \<Rightarrow> string \<Rightarrow> int \<Rightarrow> obj \<Rightarrow> world \<Rightarrow> response \<times> world" where
  "put_handler dirname stamp ident updates w =
     (case loadData (POSTS_FILE dirname) w of
        (Inl e, w1) \<Rightarrow> failed ''Error updating post:'' ''Failed to update post'' w1
      | (Inr loaded, w1) \<Rightarrow>
          (case as_array loaded of
             Inl e \<Rightarrow> failed ''Error updating post:'' ''Failed to update post'' w1
           | Inr posts \<Rightarrow>
               (case findIndex posts ident of
                  Inl e \<Rightarrow> failed ''Error updating post:'' ''Failed to update post'' w1
                | Inr None \<Rightarrow> (\<lparr>status = 404, body = error_body ''Post not found''\<rparr>, w1)
                | Inr (Some index) \<Rightarrow>
                    (let merged = merge_record (posts ! index) updates stamp
                     in (case writeJson (POSTS_FILE dirname) (JArr (posts[index := merged])) w1 of
                           (Inl e, w2) \<Rightarrow>
                             failed ''Error updating post:'' ''Failed to update post'' w2
                         | (Inr u, w2) \<Rightarrow>
                             (\<lparr>status = 200, body = merged\<rparr>,
                              console_log ''Updated post'' w2))))))"

text \<open>
  The update operation, collection by collection. The server registers
  \<open>PUT /posts/:id\<close> and no PUT route for projects: a PUT request for a project matches no
  route, no handler runs, nothing is read or written, and the framework answers 404 with
  a page that names the request (kept here as its text, for a parameter written as the
  decimal numeral of \<open>ident\<close>).
\<close>

fun update_route ::
  "path \<Rightarrow> collection \<Rightarrow> string \<Rightarrow> int \<Rightarrow> obj \<Rightarrow> world \<Rightarrow> response \<times> world" where
  "update_route dirname Posts stamp ident updates w = put_handler dirname stamp ident updates w"
| "update_route dirname Projects stamp ident updates w =
     (\<lparr>status = 404, body = JStr (''Cannot PUT /projects/'' @ show_int ident)\<rparr>, w)"

subsection \<open>DELETE /posts/:id and DELETE /projects/:id\<close>

fun not_found_msg :: "collection \<Rightarrow> string" where
  "not_found_msg Posts = ''Post not found''"
| "not_found_msg Projects = ''Project not found''"

fun delete_failed_msg :: "collection \<Rightarrow> string" where
  "delete_failed_msg Posts = ''Failed to delete post''"
| "delete_failed_msg Projects = ''Failed to delete project''"

fun delete_failed_log :: "collection \<Rightarrow> string" where
  "delete_failed_log Posts = ''Error deleting post:''"
| "delete_failed_log Projects = ''Error deleting project:''"

fun removed_image_log :: "collection \<Rightarrow> string" where
  "removed_image_log Posts = ''Removed image file:''"
| "removed_image_log Projects = ''Removed project image:''"

fun deleted_log :: "collection \<Rightarrow> string" where
  "deleted_log Posts = ''Deleted post''"
| "deleted_log Projects = ''Deleted project''"

fun deleted_msg :: "collection \<Rightarrow> string" where
  "deleted_msg Posts = ''Post deleted''"
| "deleted_msg Projects = ''Project deleted''"

text \<open>
  The removal of the media file of the record to delete: when \<open>media\<close> is truthy and
  starts with \<open>/uploads\<close>, the file at \<open>path.join(__dirname, media)\<close> is removed if it
  exists, and a line is logged either way.
\<close>

definition remove_media ::
  "path \<Rightarrow> collection \<Rightarrow> json option \<Rightarrow> world \<Rightarrow> (exn + unit) \<times> world" where
  "remove_media dirname c media w =
     (if truthy media then
        (case media of
           Some (JStr m) \<Rightarrow>
             if prefix ''/uploads'' m then
               (let filePath = path_join dirname m
                in (if pathExists w filePath then
                      (case remove (fst filePath) w of
                         (Inl e, w') \<Rightarrow> (Inl e, w')
                       | (Inr u, w') \<Rightarrow> (Inr (), console_log (removed_image_log c) w'))
                    else (Inr (), console_log (removed_image_log c) w)))
             else (Inr (), w)
         | other \<Rightarrow> (Inl TypeError, w))
      else (Inr (), w))"

definition delete_handler :: "path \<Rightarrow> collection \<Rightarrow> int \<Rightarrow> world \<Rightarrow> response \<times> world" where
  "delete_handler dirname c ident w =
     (case loadData (data_file dirname c) w of
        (Inl e, w1) \<Rightarrow> failed (delete_failed_log c) (delete_failed_msg c) w1
      | (Inr loaded, w1) \<Rightarrow>
          (case as_array loaded of
             Inl e \<Rightarrow> failed (delete_failed_log c) (delete_failed_msg c) w1
           | Inr posts \<Rightarrow>
               (case find_by_id posts ident of
                  Inl e \<Rightarrow> failed (delete_failed_log c) (delete_failed_msg c) w1
                | Inr postToDelete \<Rightarrow>
                    (case filter_by_id posts ident of
                       Inl e \<Rightarrow> failed (delete_failed_log c) (delete_failed_msg c) w1
                     | Inr updated \<Rightarrow>
                         (case postToDelete of
                            None \<Rightarrow>
                              (\<lparr>status = 404, body = error_body (not_found_msg c)\<rparr>, w1)
                          | Some p \<Rightarrow>
                              (case get_prop p ''media'' of
                                 Inl e \<Rightarrow>
                                   failed (delete_failed_log c) (delete_failed_msg c) w1
                               | Inr media \<Rightarrow>
                                   (case remove_media dirname c media w1 of
                                      (Inl e, w2) \<Rightarrow>
                                        failed (delete_failed_log c) (delete_failed_msg c) w2
                                    | (Inr u, w2) \<Rightarrow>
                                        (case writeJson (data_file dirname c) (JArr updated) w2 of
                                           (Inl e, w3) \<Rightarrow>
                                             failed (delete_failed_log c) (delete_failed_msg c) w3
                                         | (Inr u, w3) \<Rightarrow>
                                             (\<lparr>status = 200,
                                               body = JObj (fmap_of_list
                                                 [(''message'', JStr (deleted_msg c)),
                                                  (''id'', JNum ident)])\<rparr>,
                                              console_log (deleted_log c) w3)))))))))"

text \<open>
  The reduced variant of the server has one delete route, for posts: it filters, answers
  404 when nothing was filtered out, and never touches the uploads directory. Its
  \<open>catch\<close> logs nothing.
\<close>

definition delete_posts_reduced :: "path \<Rightarrow> int \<Rightarrow> world \<Rightarrow> response \<times> world" where
  "delete_posts_reduced dirname ident w =
     (case loadData (POSTS_FILE dirname) w of
        (Inl e, w1) \<Rightarrow> (\<lparr>status = 500, body = error_body ''Delete failed''\<rparr>, w1)
      | (Inr loaded, w1) \<Rightarrow>
          (case as_array loaded of
             Inl e \<Rightarrow> (\<lparr>status = 500, body = error_body ''Delete failed''\<rparr>, w1)
           | Inr posts \<Rightarrow>
               (case filter_by_id posts ident of
                  Inl e \<Rightarrow> (\<lparr>status = 500, body = error_body ''Delete failed''\<rparr>, w1)
                | Inr filtered \<Rightarrow>
                    if length posts = length filtered
                    then (\<lparr>status = 404, body = error_body ''Post not found''\<rparr>, w1)
                    else
                      (case writeJson (POSTS_FILE dirname) (JArr filtered) w1 of
                         (Inl e, w2) \<Rightarrow>
                           (\<lparr>status = 500, body = error_body ''Delete failed''\<rparr>, w2)
                       | (Inr u, w2) \<Rightarrow>
                           (\<lparr>status = 200,
                             body = JObj (fmap_of_list [(''message'', JStr ''Post deleted'')])\<rparr>,
                            w2)))))"

section \<open>Notions of the specification\<close>

text \<open>
  The records of a collection are the elements of the array in its backing file; a file
  that is absent, or holds something else, has none. The \<open>id\<close> of a record is its
  \<open>id\<close> field.
\<close>

definition holds :: "world \<Rightarrow> path \<Rightarrow> json \<Rightarrow> bool" where
  "holds w f j = (node_at w f = Some (File (JsonText j)))"

definition absent :: "world \<Rightarrow> path \<Rightarrow> bool" where
  "absent w f = (node_at w f = None)"

definition readable :: "world \<Rightarrow> path \<Rightarrow> bool" where
  "readable w f = ((Read, f) \<notin> faulty w)"

definition writable :: "world \<Rightarrow> path \<Rightarrow> bool" where
  "writable w f =
     ((Write, f) \<notin> faulty w \<and> f \<noteq> [] \<and> node_at w (butlast f) = Some Dir
      \<and> node_at w f \<noteq> Some Dir)"

definition stored :: "path \<Rightarrow> collection \<Rightarrow> world \<Rightarrow> json list" where
  "stored dirname c w =
     (case node_at w (data_file dirname c) of
        Some (File (JsonText (JArr ps))) \<Rightarrow> ps
      | other \<Rightarrow> [])"

definition id_of :: "json \<Rightarrow> json option" where
  "id_of p = fmlookup (own_props p) ''id''"

definition has_id :: "int \<Rightarrow> json \<Rightarrow> bool" where
  "has_id ident p = (id_of p = Some (JNum ident))"

definition ids :: "json list \<Rightarrow> json list" where
  "ids ps = List.map_filter id_of ps"

definition unique_ids :: "json list \<Rightarrow> bool" where
  "unique_ids ps = distinct (ids ps)"


definition media_of :: "json \<Rightarrow> json option" where
  "media_of p = fmlookup (own_props p) ''media''"

text \<open>A file name: one path segment that is not \<open>.\<close> or \<open>..\<close>.\<close>

definition file_name :: "string \<Rightarrow> bool" where
  "file_name n = (n \<noteq> [] \<and> CHR ''/'' \<notin> set n \<and> n \<noteq> ''.'' \<and> n \<noteq> ''..'')"

text \<open>The index that \<open>findIndex\<close> yields when a record with the id exists.\<close>

definition first_index :: "json list \<Rightarrow> int \<Rightarrow> nat" where
  "first_index ps ident = length (takeWhile (\<lambda>p. \<not> has_id ident p) ps)"

text \<open>
  A world in which the storage is available: nothing is refused, the server's directory
  and its uploads directory exist, no directory sits where an upload would be written,
  and each backing file is absent or holds an array.
\<close>

definition healthy :: "path \<Rightarrow> world \<Rightarrow> bool" where
  "healthy dirname w =
     (faulty w = {} \<and> node_at w dirname = Some Dir
      \<and> node_at w (UPLOAD_DIR dirname) = Some Dir
      \<and> (\<forall>n. node_at w (UPLOAD_DIR dirname @ [n]) \<noteq> Some Dir)
      \<and> (\<forall>c. absent w (data_file dirname c)
             \<or> (\<exists>ps. holds w (data_file dirname c) (JArr ps))))"

text \<open>
  A create whose fields pass the validation and whose \<open>media\<close> field, when the request
  has no file part, is absent, falsy or a string.
\<close>

definition media_ok :: "request \<Rightarrow> bool" where
  "media_ok req =
     (media_part req \<noteq> None \<or> \<not> truthy (fmlookup (req_body req) ''media'')
      \<or> (\<exists>m. fmlookup (req_body req) ''media'' = Some (JStr m)))"

definition valid_create :: "collection \<Rightarrow> request \<Rightarrow> bool" where
  "valid_create c req = (required c (req_body req) \<and> media_ok req)"

text \<open>The media reference that a valid create stores in its record.\<close>

definition media_ref :: "clock \<Rightarrow> request \<Rightarrow> json" where
  "media_ref clk req =
     (case media_part req of
        Some u \<Rightarrow>
          JStr (''/uploads/'' @ show_int (upload_now clk) @ ''-'' @ replace_spaces (originalname u))
      | None \<Rightarrow>
          (case fmlookup (req_body req) ''media'' of
             Some (JStr m) \<Rightarrow>
               if prefix ''data:image'' m
               then JStr (''/uploads/'' @ show_int (file_now clk) @ ''.png'')
               else JNull
           | other \<Rightarrow> JNull))"

text \<open>A run of create requests, each with its own readings of the clock.\<close>

fun post_many ::
  "path \<Rightarrow> collection \<Rightarrow> (clock \<times> request) list \<Rightarrow> world \<Rightarrow> response list \<times> world" where
  "post_many dirname c [] w = ([], w)"
| "post_many dirname c (cr # rest) w =
     (case post_route dirname c (fst cr) (snd cr) w of
        (r, w1) \<Rightarrow>
          (case post_many dirname c rest w1 of
             (rs, w2) \<Rightarrow> (r # rs, w2)))"

text \<open>Sequences of mutating requests.\<close>

datatype operation =
  Create collection clock request
| Update string int obj
| Delete collection int





text \<open>
  The world right after the server has started in the empty directory \<open>/app\<close>:
  \<open>fs.ensureDirSync(UPLOAD_DIR)\<close> has made the uploads directory.
\<close>

definition app :: path where
  "app = [''app'']"

definition started :: world where
  "started =
     \<lparr>tree = [[''app''] \<mapsto> Dir, [''app'', ''uploads''] \<mapsto> Dir],
      faulty = {}, console = []\<rparr>"

text \<open>
  A post with an image, a world that stores it, and the same world when the operating
  system refuses to remove the image.
\<close>

definition photo_post :: json where
  "photo_post =
     JObj (fmap_of_list
       [(''id'', JNum 1),
        (''title'', JStr ''T''),
        (''content'', JStr ''C''),
        (''type'', JStr ''blog''),
        (''link'', JNull),
        (''blogLink'', JNull),
        (''media'', JStr ''/uploads/1.png''),
        (''createdAt'', JStr ''2026-01-01T00:00:00.000Z'')])"

definition stocked :: world where
  "stocked =
     \<lparr>tree = [[''app''] \<mapsto> Dir, [''app'', ''uploads''] \<mapsto> Dir,
              [''app'', ''uploads'', ''1.png''] \<mapsto> File (Base64 ''iVBOR''),
              [''app'', ''posts.json''] \<mapsto> File (JsonText (JArr [photo_post]))],
      faulty = {}, console = []\<rparr>"

definition jammed :: world where
  "jammed = stocked\<lparr>faulty := {(Remove, [''app'', ''uploads'', ''1.png''])}\<rparr>"

text \<open>A project and a world that stores it.\<close>

definition site_project :: json where
  "site_project =
     JObj (fmap_of_list
       [(''id'', JNum 1),
        (''title'', JStr ''Portfolio Site''),
        (''media'', JNull),
        (''link'', JStr ''https://x.io''),
        (''createdAt'', JStr ''2026-01-01T00:00:00.000Z'')])"

definition with_project :: world where
  "with_project =
     \<lparr>tree = [[''app''] \<mapsto> Dir, [''app'', ''uploads''] \<mapsto> Dir,
              [''app'', ''projects.json''] \<mapsto> File (JsonText (JArr [site_project]))],
      faulty = {}, console = []\<rparr>"

text \<open>Readings of the clock and requests used in the examples.\<close>

definition noon :: clock where
  "noon = \<lparr>upload_now = 5, file_now = 5, id_now = 5, iso_now = ''2026-01-01T12:00:00.000Z''\<rparr>"


definition titled :: request where
  "titled =
     \<lparr>req_body = fmap_of_list [(''title'', JStr ''T''), (''content'', JStr ''C'')],
      media_part = None\<rparr>"

definition title_only :: request where
  "title_only = \<lparr>req_body = fmap_of_list [(''title'', JStr ''T'')], media_part = None\<rparr>"

definition title_only_with_file :: request where
  "title_only_with_file =
     \<lparr>req_body = fmap_of_list [(''title'', JStr ''T'')],
      media_part = Some \<lparr>originalname = ''a b.png'', bytes = ''PNG''\<rparr>\<rparr>"


section \<open>Basic facts\<close>

lemma node_at_snoc [simp]: "node_at w (d @ [x]) = tree w (d @ [x])"
  by (simp add: node_at_def)

lemma data_file_butlast [simp]: "butlast (data_file d c) = d"
  by (cases c) (simp_all add: POSTS_FILE_def PROJECTS_FILE_def)

lemma data_file_not_Nil [simp]: "data_file d c \<noteq> []"
  by (cases c) (simp_all add: POSTS_FILE_def PROJECTS_FILE_def)

lemma started_simps:
  "tree started = [[''app''] \<mapsto> Dir, [''app'', ''uploads''] \<mapsto> Dir]"
  "faulty started = {}"
  "console started = []"
  by (simp_all add: started_def)

lemma loadData_holds:
  "holds w f j \<Longrightarrow> readable w f \<Longrightarrow> loadData f w = (Inr j, w)"
  by (simp add: loadData_def holds_def readable_def pathExists_def readJson_def)

lemma loadData_absent:
  "absent w f \<Longrightarrow> writable w f \<Longrightarrow> readable w f \<Longrightarrow>
   loadData f w = (Inr (JArr []), w\<lparr>tree := (tree w)(f \<mapsto> File (JsonText (JArr [])))\<rparr>)"
  by (simp add: loadData_def absent_def writable_def readable_def pathExists_def
      writeJson_def writeFile_def readJson_def node_at_def)

section \<open>Listing\<close>

text \<open>
  C8. Listing a collection whose backing file does not exist first writes the empty array
  to that file and answers with the empty array; listing a collection whose backing file
  holds an array answers with exactly that array (no pagination, no filtering) and leaves
  the world as it was. Both hold when the storage accepts the read and the write.
\<close>

theorem get_handler_lists:
  "(absent w (data_file d c) \<and> writable w (data_file d c) \<and> readable w (data_file d c) \<longrightarrow>
      get_handler d c w =
        (\<lparr>status = 200, body = JArr []\<rparr>,
         w\<lparr>tree := (tree w)(data_file d c \<mapsto> File (JsonText (JArr [])))\<rparr>))
   \<and> (holds w (data_file d c) (JArr ps) \<and> readable w (data_file d c) \<longrightarrow>
      get_handler d c w = (\<lparr>status = 200, body = JArr ps\<rparr>, w))"
  by (auto simp: get_handler_def loadData_absent loadData_holds)

theorem get_handler_lists_witness:
  "absent started (data_file app Posts) \<and> writable started (data_file app Posts)
   \<and> readable started (data_file app Posts)
   \<and> fst (get_handler app Posts started) = \<lparr>status = 200, body = JArr []\<rparr>
   \<and> holds (snd (get_handler app Posts started)) (data_file app Posts) (JArr [])
   \<and> readable (snd (get_handler app Posts started)) (data_file app Posts)
   \<and> get_handler app Posts (snd (get_handler app Posts started))
       = (\<lparr>status = 200, body = JArr []\<rparr>, snd (get_handler app Posts started))"
proof -
  have a: "absent started (data_file app Posts)" "writable started (data_file app Posts)"
    "readable started (data_file app Posts)"
    by (simp_all add: absent_def writable_def readable_def started_simps app_def
        POSTS_FILE_def node_at_def)
  from a get_handler_lists [of started app Posts "[]"]
  have e: "get_handler app Posts started =
        (\<lparr>status = 200, body = JArr []\<rparr>,
         started\<lparr>tree := (tree started)(data_file app Posts \<mapsto> File (JsonText (JArr [])))\<rparr>)"
    by blast
  let ?w = "snd (get_handler app Posts started)"
  have h: "holds ?w (data_file app Posts) (JArr [])" "readable ?w (data_file app Posts)"
    unfolding e
    by (simp_all add: holds_def readable_def started_simps node_at_def POSTS_FILE_def app_def)
  from h get_handler_lists [of ?w app Posts "[]"]
  have "get_handler app Posts ?w = (\<lparr>status = 200, body = JArr []\<rparr>, ?w)"
    by blast
  with a e h show ?thesis by simp
qed

section \<open>Records in an array\<close>

lemma get_prop_not_null: "p \<noteq> JNull \<Longrightarrow> get_prop p k = Inr (fmlookup (own_props p) k)"
  by (cases p) simp_all

lemma findIndex_records:
  "JNull \<notin> set ps \<Longrightarrow>
   findIndex ps i = Inr (if \<exists>p\<in>set ps. has_id i p then Some (first_index ps i) else None)"
  by (induction ps) (auto simp: get_prop_not_null has_id_def id_of_def first_index_def)

lemma find_by_id_records:
  "JNull \<notin> set ps \<Longrightarrow> find_by_id ps i = Inr (find (has_id i) ps)"
  by (induction ps) (auto simp: get_prop_not_null has_id_def id_of_def)

lemma filter_by_id_records:
  "JNull \<notin> set ps \<Longrightarrow> filter_by_id ps i = Inr (filter (\<lambda>p. \<not> has_id i p) ps)"
  by (induction ps) (auto simp: get_prop_not_null has_id_def id_of_def)

lemma first_index_less:
  "\<exists>p\<in>set ps. has_id i p \<Longrightarrow> first_index ps i < length ps"
  unfolding first_index_def by (induction ps) auto

lemma first_index_has_id:
  "\<exists>p\<in>set ps. has_id i p \<Longrightarrow> has_id i (ps ! first_index ps i)"
  unfolding first_index_def by (induction ps) auto

section \<open>The example worlds\<close>

lemma stocked_simps:
  "tree stocked = [[''app''] \<mapsto> Dir, [''app'', ''uploads''] \<mapsto> Dir,
              [''app'', ''uploads'', ''1.png''] \<mapsto> File (Base64 ''iVBOR''),
              [''app'', ''posts.json''] \<mapsto> File (JsonText (JArr [photo_post]))]"
  "faulty stocked = {}"
  "console stocked = []"
  by (simp_all add: stocked_def)

lemma photo_post_simps:
  "photo_post \<noteq> JNull" "JNull \<noteq> photo_post" "has_id i photo_post = (i = 1)"
  "media_of photo_post = Some (JStr ''/uploads/1.png'')"
  by (auto simp: photo_post_def has_id_def id_of_def media_of_def)

lemma jammed_simps:
  "tree jammed = tree stocked" "faulty jammed = {(Remove, [''app'', ''uploads'', ''1.png''])}"
  "console jammed = []"
  by (simp_all add: jammed_def stocked_def)

lemma stocked_ready:
  "holds stocked (POSTS_FILE app) (JArr [photo_post])" "readable stocked (POSTS_FILE app)"
  "writable stocked (POSTS_FILE app)" "JNull \<notin> set [photo_post]"
  "\<exists>p\<in>set [photo_post]. has_id 1 p"
  by (simp_all add: holds_def readable_def writable_def stocked_simps photo_post_simps
      POSTS_FILE_def app_def node_at_def)

section \<open>Updating\<close>

lemma writeFile_ok:
  "writable w p \<Longrightarrow> writeFile p c w = (Inr (), w\<lparr>tree := (tree w)(p \<mapsto> File c)\<rparr>)"
  by (simp add: writable_def writeFile_def)

lemma put_handler_found:
  assumes "holds w (POSTS_FILE d) (JArr ps)" "readable w (POSTS_FILE d)"
    "writable w (POSTS_FILE d)" "JNull \<notin> set ps" "\<exists>p\<in>set ps. has_id ident p"
  shows "put_handler d stamp ident updates w =
      (\<lparr>status = 200, body = merge_record (ps ! first_index ps ident) updates stamp\<rparr>,
       console_log ''Updated post''
         (w\<lparr>tree := (tree w)(POSTS_FILE d \<mapsto> File (JsonText (JArr
             (ps[first_index ps ident := merge_record (ps ! first_index ps ident) updates stamp]))))\<rparr>))"
  using assms
  by (simp add: put_handler_def loadData_holds findIndex_records writeJson_def writeFile_ok Let_def)

lemma stored_write [simp]:
  "stored d c (console_log s (w\<lparr>tree := (tree w)(data_file d c \<mapsto> File (JsonText (JArr qs)))\<rparr>)) = qs"
  by (simp add: stored_def console_log_def node_at_def)

lemma merge_record_lookup:
  "fmlookup (own_props (merge_record p updates stamp)) k =
     (if k = ''updatedAt'' then Some (JStr stamp)
      else if k |\<in>| fmdom updates then fmlookup updates k
      else fmlookup (own_props p) k)"
  by (simp add: merge_record_def)

text \<open>
  C5, as amended. An update with an id that no record of the posts file carries is answered
  with 404 "Post not found". When the backing file exists (and holds an array of records)
  the world is left exactly as it was; when the backing file is absent, \<open>loadData\<close> has
  created it, holding the empty array, before the id is looked up.
\<close>

theorem put_handler_unknown_id:
  "(holds w (POSTS_FILE d) (JArr ps) \<and> readable w (POSTS_FILE d) \<and> JNull \<notin> set ps
      \<and> (\<forall>p\<in>set ps. \<not> has_id ident p) \<longrightarrow>
    put_handler d stamp ident updates w =
      (\<lparr>status = 404, body = error_body ''Post not found''\<rparr>, w))
   \<and> (absent w (POSTS_FILE d) \<and> writable w (POSTS_FILE d) \<and> readable w (POSTS_FILE d) \<longrightarrow>
    put_handler d stamp ident updates w =
      (\<lparr>status = 404, body = error_body ''Post not found''\<rparr>,
       w\<lparr>tree := (tree w)(POSTS_FILE d \<mapsto> File (JsonText (JArr [])))\<rparr>))"
  by (auto simp: put_handler_def loadData_holds loadData_absent findIndex_records)

theorem put_handler_unknown_id_witness:
  "holds stocked (POSTS_FILE app) (JArr [photo_post]) \<and> readable stocked (POSTS_FILE app)
   \<and> JNull \<notin> set [photo_post] \<and> \<not> has_id 2 photo_post
   \<and> put_handler app ''s'' 2 fmempty stocked =
        (\<lparr>status = 404, body = error_body ''Post not found''\<rparr>, stocked)
   \<and> absent started (POSTS_FILE app) \<and> writable started (POSTS_FILE app)
   \<and> readable started (POSTS_FILE app)
   \<and> put_handler app ''s'' 2 fmempty started =
        (\<lparr>status = 404, body = error_body ''Post not found''\<rparr>,
         started\<lparr>tree := (tree started)(POSTS_FILE app \<mapsto> File (JsonText (JArr [])))\<rparr>)"
proof -
  have a: "holds stocked (POSTS_FILE app) (JArr [photo_post])" "readable stocked (POSTS_FILE app)"
    "JNull \<notin> set [photo_post]" "\<forall>p\<in>set [photo_post]. \<not> has_id 2 p"
    by (simp_all add: holds_def readable_def stocked_simps photo_post_simps POSTS_FILE_def
        app_def node_at_def)
  have b: "absent started (POSTS_FILE app)" "writable started (POSTS_FILE app)"
    "readable started (POSTS_FILE app)"
    by (simp_all add: absent_def writable_def readable_def started_simps POSTS_FILE_def
        app_def node_at_def)
  from a b put_handler_unknown_id [of stocked app "[photo_post]" 2 "''s''" fmempty]
    put_handler_unknown_id [of started app "[]" 2 "''s''" fmempty]
  show ?thesis by simp
qed

text \<open>
  C5 as stated fails: right after start-up there is no posts file; an update with an
  unknown id is answered with 404, and afterwards the posts file exists.
\<close>

theorem put_handler_creates_file:
  "tree started (POSTS_FILE app) = None
   \<and> status (fst (put_handler app ''2026-01-01T00:00:00.000Z'' 1 fmempty started)) = 404
   \<and> tree (snd (put_handler app ''2026-01-01T00:00:00.000Z'' 1 fmempty started)) (POSTS_FILE app)
       = Some (File (JsonText (JArr [])))"
  by (simp add: put_handler_def loadData_def pathExists_def writeJson_def writeFile_def
      readJson_def node_at_def started_simps app_def POSTS_FILE_def)

text \<open>
  C6, as amended. On the posts collection, when the backing file is readable and writable
  and holds an array of records, none of them null and one of them with the id, the update
  takes the first such record and answers with status 200 and the merged record: an object that carries, for
  every key of the request other than \<open>updatedAt\<close>, the value of the request, for
  \<open>updatedAt\<close> the reading of the clock, and for every other key the prior value of the
  record. The merged record replaces the old one in the backing file, all other records
  staying in place.
\<close>

theorem put_handler_merges:
  assumes "holds w (POSTS_FILE d) (JArr ps)" "readable w (POSTS_FILE d)"
    "writable w (POSTS_FILE d)" "JNull \<notin> set ps" "\<exists>p\<in>set ps. has_id ident p"
  shows "let i = first_index ps ident; old = ps ! i;
             result = put_handler d stamp ident updates w; merged = body (fst result)
         in i < length ps \<and> has_id ident old
            \<and> status (fst result) = 200
            \<and> merged = merge_record old updates stamp
            \<and> stored d Posts (snd result) = ps[i := merged]
            \<and> (\<exists>m. merged = JObj m)
            \<and> (\<forall>k v. k \<noteq> ''updatedAt'' \<and> fmlookup updates k = Some v \<longrightarrow>
                  fmlookup (own_props merged) k = Some v)
            \<and> fmlookup (own_props merged) ''updatedAt'' = Some (JStr stamp)
            \<and> (\<forall>k. k \<noteq> ''updatedAt'' \<and> fmlookup updates k = None \<longrightarrow>
                  fmlookup (own_props merged) k = fmlookup (own_props old) k)"
proof -
  let ?old = "ps ! first_index ps ident"
  let ?merged = "merge_record ?old updates stamp"
  note f = put_handler_found [OF assms, of stamp updates]
  have b: "body (fst (put_handler d stamp ident updates w)) = ?merged"
    and s: "status (fst (put_handler d stamp ident updates w)) = 200"
    unfolding f by simp_all
  have st: "stored d Posts (snd (put_handler d stamp ident updates w))
      = ps[first_index ps ident := ?merged]"
    unfolding f using stored_write [of d Posts] by simp
  have o: "\<exists>m. ?merged = JObj m"
    by (simp add: merge_record_def)
  have sent: "fmlookup (own_props ?merged) k = Some v"
    if "k \<noteq> ''updatedAt'' \<and> fmlookup updates k = Some v" for k v
    using that by (simp add: merge_record_lookup fmdomI)
  have kept: "fmlookup (own_props ?merged) k = fmlookup (own_props ?old) k"
    if "k \<noteq> ''updatedAt'' \<and> fmlookup updates k = None" for k
    using that by (simp add: merge_record_lookup fmdom_notI)
  have u: "fmlookup (own_props ?merged) ''updatedAt'' = Some (JStr stamp)"
    by (simp add: merge_record_lookup)
  have sent': "\<forall>k v. k \<noteq> ''updatedAt'' \<and> fmlookup updates k = Some v \<longrightarrow>
      fmlookup (own_props ?merged) k = Some v"
    using sent by (intro allI impI)
  have kept': "\<forall>k. k \<noteq> ''updatedAt'' \<and> fmlookup updates k = None \<longrightarrow>
      fmlookup (own_props ?merged) k = fmlookup (own_props ?old) k"
    using kept by (intro allI impI)
  show ?thesis
    unfolding Let_def b
    by (intro conjI first_index_less [OF assms(5)] first_index_has_id [OF assms(5)]
        s refl st o sent' u kept')
qed

theorem put_handler_merges_witness:
  "holds stocked (POSTS_FILE app) (JArr [photo_post]) \<and> readable stocked (POSTS_FILE app)
   \<and> writable stocked (POSTS_FILE app) \<and> JNull \<notin> set [photo_post]
   \<and> has_id 1 photo_post
   \<and> status (fst (put_handler app ''s'' 1 (fmap_of_list [(''title'', JStr ''New'')]) stocked)) = 200
   \<and> stored app Posts (snd (put_handler app ''s'' 1 (fmap_of_list [(''title'', JStr ''New'')]) stocked)) =
       [body (fst (put_handler app ''s'' 1 (fmap_of_list [(''title'', JStr ''New'')]) stocked))]
   \<and> fmlookup (own_props (body (fst
         (put_handler app ''s'' 1 (fmap_of_list [(''title'', JStr ''New'')]) stocked))))
         ''title'' = Some (JStr ''New'')
   \<and> fmlookup (own_props (body (fst
         (put_handler app ''s'' 1 (fmap_of_list [(''title'', JStr ''New'')]) stocked))))
         ''updatedAt'' = Some (JStr ''s'')
   \<and> fmlookup (own_props (body (fst
         (put_handler app ''s'' 1 (fmap_of_list [(''title'', JStr ''New'')]) stocked))))
         ''content'' = Some (JStr ''C'')"
proof -
  note t = put_handler_merges [OF stocked_ready, where stamp = "''s''"
      and updates = "fmap_of_list [(''title'', JStr ''New'')]", unfolded Let_def]
  note c3 = t [THEN conjunct2, THEN conjunct2, THEN conjunct1]
  note c5 = t [THEN conjunct2, THEN conjunct2, THEN conjunct2, THEN conjunct2, THEN conjunct1]
  note c7 = t [THEN conjunct2, THEN conjunct2, THEN conjunct2, THEN conjunct2, THEN conjunct2,
      THEN conjunct2, THEN conjunct1]
  note c8 = t [THEN conjunct2, THEN conjunct2, THEN conjunct2, THEN conjunct2, THEN conjunct2,
      THEN conjunct2, THEN conjunct2, THEN conjunct1]
  note c9 = t [THEN conjunct2, THEN conjunct2, THEN conjunct2, THEN conjunct2, THEN conjunct2,
      THEN conjunct2, THEN conjunct2, THEN conjunct2]
  have i: "first_index [photo_post] 1 = 0"
    by (simp add: first_index_def photo_post_simps)
  have k: "''title'' \<noteq> ''updatedAt''
      \<and> fmlookup (fmap_of_list [(''title'', JStr ''New'')]) ''title'' = Some (JStr ''New'')"
    "''content'' \<noteq> ''updatedAt''
      \<and> fmlookup (fmap_of_list [(''title'', JStr ''New'')]) ''content'' = None"
    by simp_all
  have o: "fmlookup (own_props ([photo_post] ! 0)) ''content'' = Some (JStr ''C'')"
    by (simp add: photo_post_def)
  have t2: "stored app Posts (snd (put_handler app ''s'' 1
        (fmap_of_list [(''title'', JStr ''New'')]) stocked)) =
       [body (fst (put_handler app ''s'' 1 (fmap_of_list [(''title'', JStr ''New'')]) stocked))]"
    using c5 unfolding i by simp
  have t3: "fmlookup (own_props (body (fst
         (put_handler app ''s'' 1 (fmap_of_list [(''title'', JStr ''New'')]) stocked))))
         ''title'' = Some (JStr ''New'')"
    using c7 [rule_format, OF k(1)] .
  have t5: "fmlookup (own_props (body (fst
         (put_handler app ''s'' 1 (fmap_of_list [(''title'', JStr ''New'')]) stocked))))
         ''content'' = Some (JStr ''C'')"
    using c9 [rule_format, OF k(2)] o unfolding i by (simp only:)
  from stocked_ready have a: "has_id 1 photo_post" by simp
  show ?thesis
    by (intro conjI stocked_ready(1-4) a c3 t2 t3 c8 t5)
qed

text \<open>
  C6 as stated fails for the projects collection: the server has no update route for
  projects, so an update of a stored project is answered with 404 and the record stays
  as it was, without \<open>updatedAt\<close>.
\<close>

theorem projects_have_no_update:
  "stored app Projects with_project = [site_project] \<and> has_id 1 site_project
   \<and> status (fst (update_route app Projects ''2026-01-02T00:00:00.000Z'' 1
        (fmap_of_list [(''title'', JStr ''New'')]) with_project)) = 404
   \<and> stored app Projects (snd (update_route app Projects ''2026-01-02T00:00:00.000Z'' 1
        (fmap_of_list [(''title'', JStr ''New'')]) with_project)) = [site_project]
   \<and> fmlookup (own_props site_project) ''title'' = Some (JStr ''Portfolio Site'')
   \<and> fmlookup (own_props site_project) ''updatedAt'' = None"
  by (simp add: stored_def with_project_def PROJECTS_FILE_def app_def node_at_def has_id_def
      id_of_def site_project_def)

text \<open>
  C10. Every field of the request takes precedence in the merged record, \<open>id\<close> and
  \<open>createdAt\<close> included: the returned and the stored record carry the request's value
  for each key of the request other than \<open>updatedAt\<close>. \<open>updatedAt\<close> is always the
  reading of the clock taken by the call, whatever the request supplies for it.
\<close>

theorem put_handler_precedence:
  assumes "holds w (POSTS_FILE d) (JArr ps)" "readable w (POSTS_FILE d)"
    "writable w (POSTS_FILE d)" "JNull \<notin> set ps" "\<exists>p\<in>set ps. has_id ident p"
    and "fmlookup updates k = Some v"
  shows "let result = put_handler d stamp ident updates w;
             returned = own_props (body (fst result));
             kept = own_props (stored d Posts (snd result) ! first_index ps ident)
         in status (fst result) = 200
            \<and> (k \<noteq> ''updatedAt'' \<longrightarrow> fmlookup returned k = Some v \<and> fmlookup kept k = Some v)
            \<and> fmlookup returned ''updatedAt'' = Some (JStr stamp)
            \<and> fmlookup kept ''updatedAt'' = Some (JStr stamp)"
proof -
  have i: "first_index ps ident < length ps"
    using assms(5) by (rule first_index_less)
  have k: "k |\<in>| fmdom updates"
    using assms(6) by (simp add: fmdomI)
  show ?thesis
    using i k assms(6) put_handler_found [OF assms(1-5), of stamp updates]
      stored_write [of d Posts]
    by (simp add: Let_def merge_record_lookup del: stored_write)
qed

theorem put_handler_precedence_witness:
  "holds stocked (POSTS_FILE app) (JArr [photo_post]) \<and> readable stocked (POSTS_FILE app)
   \<and> writable stocked (POSTS_FILE app) \<and> JNull \<notin> set [photo_post]
   \<and> has_id 1 photo_post
   \<and> fmlookup (fmap_of_list [(''id'', JNum 9), (''updatedAt'', JStr ''mine'')]) ''id'' = Some (JNum 9)
   \<and> status (fst (put_handler app ''s'' 1
         (fmap_of_list [(''id'', JNum 9), (''updatedAt'', JStr ''mine'')]) stocked)) = 200
   \<and> fmlookup (own_props (body (fst (put_handler app ''s'' 1
         (fmap_of_list [(''id'', JNum 9), (''updatedAt'', JStr ''mine'')]) stocked)))) ''id''
       = Some (JNum 9)
   \<and> fmlookup (own_props (body (fst (put_handler app ''s'' 1
         (fmap_of_list [(''id'', JNum 9), (''updatedAt'', JStr ''mine'')]) stocked)))) ''updatedAt''
       = Some (JStr ''s'')"
proof -
  have k: "fmlookup (fmap_of_list [(''id'', JNum 9), (''updatedAt'', JStr ''mine'')]) ''id''
      = Some (JNum 9)"
    by simp
  show ?thesis
    using stocked_ready k
      put_handler_precedence [OF stocked_ready k, where stamp = "''s''"]
    by (simp add: Let_def photo_post_simps)
qed

section \<open>Names and paths\<close>

lemma segments_no_slash: "CHR ''/'' \<notin> set s \<Longrightarrow> segments s = [s]"
  by (induction s) auto

lemma file_name_last: "file_name n \<Longrightarrow> last n \<noteq> CHR ''/''"
proof
  assume f: "file_name n" and l: "last n = CHR ''/''"
  from f have "n \<noteq> []" by (simp add: file_name_def)
  then have "last n \<in> set n" by (rule last_in_set)
  with l f show False by (simp add: file_name_def)
qed

lemma path_join_file_name:
  "file_name n \<Longrightarrow> path_join d n = (d @ [n], False)"
  using file_name_last [of n]
  by (simp add: file_name_def path_join_def segments_no_slash Let_def)

lemma path_join_upload_ref:
  "file_name n \<Longrightarrow> path_join d (''/uploads/'' @ n) = (d @ [''uploads'', n], False)"
  using file_name_last [of n]
  by (simp add: file_name_def path_join_def segments_no_slash Let_def)

lemma digits_chars: "set (digits n) \<subseteq> set ''0123456789''"
proof (induction n rule: digits.induct)
  case (1 n)
  have m: "''0123456789'' ! k \<in> set ''0123456789''" if "k < 10" for k
    using that by (intro nth_mem) simp
  show ?case
  proof (cases "n < 10")
    case True
    then show ?thesis using m [of n] by (subst digits.simps) simp
  next
    case False
    have "n mod 10 < 10" by simp
    with False 1 m [of "n mod 10"] show ?thesis by (subst digits.simps) simp
  qed
qed

lemma digits_not_Nil: "digits n \<noteq> []"
  by (subst digits.simps) simp

lemma digits_no_slash: "CHR ''/'' \<notin> set (digits n)"
proof
  assume "CHR ''/'' \<in> set (digits n)"
  with digits_chars [of n] have "CHR ''/'' \<in> set ''0123456789''" by (rule subsetD)
  then show False by simp
qed

lemma show_int_no_slash: "CHR ''/'' \<notin> set (show_int i)"
  by (simp add: show_int_def digits_no_slash)

lemma show_int_not_Nil: "show_int i \<noteq> []"
  by (simp add: show_int_def digits_not_Nil)

lemma png_file_name: "file_name (show_int t @ ''.png'')"
proof -
  have "length (show_int t @ ''.png'') \<noteq> length ''.''"
    and "length (show_int t @ ''.png'') \<noteq> length ''..''"
    by simp_all
  then have "show_int t @ ''.png'' \<noteq> ''.''" "show_int t @ ''.png'' \<noteq> ''..''"
    by metis+
  then show ?thesis
    unfolding file_name_def by (simp add: show_int_no_slash)
qed

lemma show_int_5: "show_int 5 = ''5''"
  by (simp add: show_int_def digits.simps)

lemma replace_spaces_a_b: "replace_spaces ''a b.png'' = ''a_b.png''"
  by (simp add: is_space_def)

lemma path_join_1png: "path_join app ''/uploads/1.png'' = ([''app'', ''uploads'', ''1.png''], False)"
  by (simp add: path_join_def Let_def app_def)

section \<open>Validation of a create\<close>

text \<open>
  C4, as amended. A create on posts whose \<open>content\<close> is absent or empty is answered with
  400, and the handler writes nothing: it returns the world it was given, so the backing
  file is untouched and no inline image is stored. For a request without a file part the
  whole route leaves the world unchanged. For a multipart request the one change of the
  route is the file that the upload middleware stored before the handler ran; that file
  stays in the uploads directory.
\<close>

theorem post_invalid_content:
  assumes "\<not> truthy (fmlookup (req_body req) ''content'')"
  shows "post_handler d Posts clk (req_body req) uploaded w =
           (\<lparr>status = 400, body = error_body ''Title and content are required''\<rparr>, w)
         \<and> (media_part req = None \<longrightarrow>
              post_route d Posts clk req w =
                (\<lparr>status = 400, body = error_body ''Title and content are required''\<rparr>, w))
         \<and> (\<forall>u. media_part req = Some u
                \<and> writable w (UPLOAD_DIR d @ [show_int (upload_now clk) @ ''-'' @ replace_spaces (originalname u)]) \<longrightarrow>
              post_route d Posts clk req w =
                (\<lparr>status = 400, body = error_body ''Title and content are required''\<rparr>,
                 w\<lparr>tree := (tree w)
                    (UPLOAD_DIR d @ [show_int (upload_now clk) @ ''-'' @ replace_spaces (originalname u)]
                       \<mapsto> File (Raw (bytes u)))\<rparr>))"
  using assms
  by (auto simp: post_handler_def post_route_def upload_single_def writeFile_ok Let_def)

theorem post_invalid_content_witness:
  "\<not> truthy (fmlookup (req_body title_only) ''content'')
   \<and> media_part title_only = None
   \<and> post_route app Posts noon title_only started =
       (\<lparr>status = 400, body = error_body ''Title and content are required''\<rparr>, started)
   \<and> \<not> truthy (fmlookup (req_body title_only_with_file) ''content'')
   \<and> media_part title_only_with_file = Some \<lparr>originalname = ''a b.png'', bytes = ''PNG''\<rparr>
   \<and> writable started (UPLOAD_DIR app @ [''5-a_b.png''])
   \<and> post_route app Posts noon title_only_with_file started =
       (\<lparr>status = 400, body = error_body ''Title and content are required''\<rparr>,
        started\<lparr>tree := (tree started)(UPLOAD_DIR app @ [''5-a_b.png''] \<mapsto> File (Raw ''PNG''))\<rparr>)"
proof -
  have a: "\<not> truthy (fmlookup (req_body title_only) ''content'')" "media_part title_only = None"
    by (simp_all add: title_only_def)
  have b: "\<not> truthy (fmlookup (req_body title_only_with_file) ''content'')"
    "media_part title_only_with_file = Some \<lparr>originalname = ''a b.png'', bytes = ''PNG''\<rparr>"
    by (simp_all add: title_only_with_file_def)
  have n: "show_int (upload_now noon) @ ''-'' @ replace_spaces ''a b.png'' = ''5-a_b.png''"
    by (simp add: noon_def show_int_5 is_space_def)
  have w: "writable started (UPLOAD_DIR app @ [''5-a_b.png''])"
    by (simp add: writable_def started_simps UPLOAD_DIR_def app_def node_at_def)
  from post_invalid_content [OF a(1), where d = app and clk = noon and uploaded = None and w = started] a(2)
  have r1: "post_route app Posts noon title_only started =
       (\<lparr>status = 400, body = error_body ''Title and content are required''\<rparr>, started)"
    by blast
  from post_invalid_content [OF b(1), where d = app and clk = noon and uploaded = None and w = started] b(2) w n
  have r2: "post_route app Posts noon title_only_with_file started =
       (\<lparr>status = 400, body = error_body ''Title and content are required''\<rparr>,
        started\<lparr>tree := (tree started)(UPLOAD_DIR app @ [''5-a_b.png''] \<mapsto> File (Raw ''PNG''))\<rparr>)"
    by simp
  show ?thesis
    by (intro conjI a b w r1 r2)
qed

text \<open>
  C4 as stated fails: a multipart create with a title, no content and a file part is
  answered with 400, and the uploads directory holds a new file afterwards.
\<close>

theorem post_route_keeps_upload:
  "\<not> truthy (fmlookup (req_body title_only_with_file) ''content'')
   \<and> tree started (UPLOAD_DIR app @ [''5-a_b.png'']) = None
   \<and> status (fst (post_route app Posts noon title_only_with_file started)) = 400
   \<and> tree (snd (post_route app Posts noon title_only_with_file started))
        (UPLOAD_DIR app @ [''5-a_b.png'']) = Some (File (Raw ''PNG''))"
  by (simp add: post_route_def upload_single_def post_handler_def writeFile_def Let_def
      title_only_with_file_def noon_def show_int_5 is_space_def started_simps
      UPLOAD_DIR_def app_def node_at_def)

section \<open>Deleting\<close>

lemma remove_media_falsy:
  "\<not> truthy media \<Longrightarrow> remove_media d c media w = (Inr (), w)"
  by (simp add: remove_media_def)

lemma remove_media_elsewhere:
  "m \<noteq> [] \<Longrightarrow> \<not> prefix ''/uploads'' m \<Longrightarrow> remove_media d c (Some (JStr m)) w = (Inr (), w)"
  by (simp add: remove_media_def)

lemma remove_media_refused:
  "prefix ''/uploads'' m \<Longrightarrow> pathExists w (path_join d m) \<Longrightarrow>
   (Remove, fst (path_join d m)) \<in> faulty w \<Longrightarrow>
   remove_media d c (Some (JStr m)) w = (Inl IOError, w)"
proof -
  assume a: "prefix ''/uploads'' m" "pathExists w (path_join d m)"
    "(Remove, fst (path_join d m)) \<in> faulty w"
  from a(1) have "m \<noteq> []" by auto
  with a show ?thesis
    by (simp add: remove_media_def remove_def Let_def)
qed

lemma prefix_uploads: "prefix ''/uploads'' (''/uploads/'' @ n)"
  by (simp add: prefix_def)

lemmas path_join_upload_cons = path_join_upload_ref [simplified]

text \<open>The world after the file of an upload reference has been removed.\<close>

lemma remove_media_upload:
  assumes "file_name n" "(Remove, d @ [''uploads'', n]) \<notin> faulty w"
  shows "\<exists>w'. remove_media d c (Some (JStr (''/uploads/'' @ n))) w = (Inr (), w')
          \<and> faulty w' = faulty w
          \<and> tree w' (d @ [''uploads'', n]) = None
          \<and> (\<forall>q. \<not> prefix (d @ [''uploads'', n]) q \<longrightarrow> tree w' q = tree w q)"
proof (cases "pathExists w (d @ [''uploads'', n], False)")
  case True
  have "remove_media d c (Some (JStr (''/uploads/'' @ n))) w =
      (Inr (), console_log (removed_image_log c)
         (w\<lparr>tree := (\<lambda>q. if prefix (d @ [''uploads'', n]) q then None else tree w q)\<rparr>))"
    using True assms prefix_uploads [of n]
    by (simp add: remove_media_def Let_def remove_def path_join_upload_cons)
  then show ?thesis
    by (simp add: console_log_def)
next
  case False
  have "remove_media d c (Some (JStr (''/uploads/'' @ n))) w =
      (Inr (), console_log (removed_image_log c) w)"
    using False assms prefix_uploads [of n]
    by (simp add: remove_media_def Let_def path_join_upload_cons)
  moreover from False have "tree w (d @ [''uploads'', n]) = None"
    by (simp add: pathExists_def node_at_def split: option.splits node.splits)
  ultimately show ?thesis
    by (simp add: console_log_def)
qed

lemma stored_console_error: "stored d c (console_error s w) = stored d c w"
  by (simp add: stored_def console_error_def node_at_def)

lemma stored_console_log: "stored d c (console_log s w) = stored d c w"
  by (simp add: stored_def console_log_def node_at_def)

lemma find_has_id:
  "find (has_id i) ps = Some p \<Longrightarrow> p \<in> set ps \<and> has_id i p"
  by (induction ps) (auto split: if_splits)

lemma delete_handler_found:
  assumes "holds w (data_file d c) (JArr ps)" "readable w (data_file d c)"
    "JNull \<notin> set ps" "find (has_id ident) ps = Some p"
  shows "delete_handler d c ident w =
     (case remove_media d c (media_of p) w of
        (Inl e, w2) \<Rightarrow> failed (delete_failed_log c) (delete_failed_msg c) w2
      | (Inr u, w2) \<Rightarrow>
          (case writeJson (data_file d c) (JArr (filter (\<lambda>q. \<not> has_id ident q) ps)) w2 of
             (Inl e, w3) \<Rightarrow> failed (delete_failed_log c) (delete_failed_msg c) w3
           | (Inr u, w3) \<Rightarrow>
               (\<lparr>status = 200,
                 body = JObj (fmap_of_list
                   [(''message'', JStr (deleted_msg c)), (''id'', JNum ident)])\<rparr>,
                console_log (deleted_log c) w3)))"
proof -
  from assms(3,4) find_has_id [OF assms(4)] have "p \<noteq> JNull" by auto
  then have "get_prop p ''media'' = Inr (media_of p)"
    by (simp add: get_prop_not_null media_of_def)
  then show ?thesis
    using assms
    by (simp add: delete_handler_def loadData_holds find_by_id_records filter_by_id_records)
qed

text \<open>
  C2, as amended. When the record to delete has a media path that starts with
  \<open>/uploads\<close>, the file exists and its removal fails, the whole delete fails: the handler
  logs the error, answers with status 500, and the record stays in the backing file
  (the file system is left as it was).
\<close>

theorem delete_handler_remove_refused:
  assumes "holds w (data_file d c) (JArr ps)" "readable w (data_file d c)"
    "JNull \<notin> set ps" "find (has_id ident) ps = Some p"
    and "media_of p = Some (JStr m)" "prefix ''/uploads'' m"
    and "pathExists w (path_join d m)" "(Remove, fst (path_join d m)) \<in> faulty w"
  shows "delete_handler d c ident w =
           (\<lparr>status = 500, body = error_body (delete_failed_msg c)\<rparr>,
            console_error (delete_failed_log c) w)
         \<and> stored d c (snd (delete_handler d c ident w)) = ps"
proof -
  have "delete_handler d c ident w =
           (\<lparr>status = 500, body = error_body (delete_failed_msg c)\<rparr>,
            console_error (delete_failed_log c) w)"
    using delete_handler_found [OF assms(1-4)] remove_media_refused [OF assms(6-8), of c] assms(5)
    by (simp add: failed_def)
  moreover have "stored d c w = ps"
    using assms(1) by (simp add: stored_def holds_def)
  ultimately show ?thesis
    by (simp add: stored_def console_error_def node_at_def)
qed

theorem delete_handler_remove_refused_witness:
  "holds jammed (data_file app Posts) (JArr [photo_post]) \<and> readable jammed (data_file app Posts)
   \<and> JNull \<notin> set [photo_post] \<and> find (has_id 1) [photo_post] = Some photo_post
   \<and> media_of photo_post = Some (JStr ''/uploads/1.png'') \<and> prefix ''/uploads'' ''/uploads/1.png''
   \<and> pathExists jammed (path_join app ''/uploads/1.png'')
   \<and> (Remove, fst (path_join app ''/uploads/1.png'')) \<in> faulty jammed
   \<and> delete_handler app Posts 1 jammed =
           (\<lparr>status = 500, body = error_body (delete_failed_msg Posts)\<rparr>,
            console_error (delete_failed_log Posts) jammed)
   \<and> stored app Posts (snd (delete_handler app Posts 1 jammed)) = [photo_post]"
proof -
  have a: "holds jammed (data_file app Posts) (JArr [photo_post])"
    "readable jammed (data_file app Posts)"
    "JNull \<notin> set [photo_post]" "find (has_id 1) [photo_post] = Some photo_post"
    "media_of photo_post = Some (JStr ''/uploads/1.png'')"
    "prefix ''/uploads'' ''/uploads/1.png''"
    "pathExists jammed (path_join app ''/uploads/1.png'')"
    "(Remove, fst (path_join app ''/uploads/1.png'')) \<in> faulty jammed"
    by (simp_all add: holds_def readable_def jammed_simps stocked_simps photo_post_simps
        POSTS_FILE_def app_def node_at_def path_join_1png [unfolded app_def] pathExists_def)
  note t = delete_handler_remove_refused [OF a]
  show ?thesis
    by (intro conjI a t [THEN conjunct1] t [THEN conjunct2])
qed

text \<open>
  C2 as stated fails: the stored post has the image \<open>/uploads/1.png\<close>, whose removal the
  operating system refuses; the delete is answered with 500 and the post is still stored.
\<close>

theorem delete_aborts_when_removal_fails:
  "has_id 1 photo_post \<and> media_of photo_post = Some (JStr ''/uploads/1.png'')
   \<and> stored app Posts jammed = [photo_post]
   \<and> status (fst (delete_handler app Posts 1 jammed)) = 500
   \<and> stored app Posts (snd (delete_handler app Posts 1 jammed)) = [photo_post]"
proof -
  have a: "holds jammed (data_file app Posts) (JArr [photo_post])"
    "readable jammed (data_file app Posts)"
    "JNull \<notin> set [photo_post]" "find (has_id 1) [photo_post] = Some photo_post"
    by (simp_all add: holds_def readable_def jammed_simps stocked_simps photo_post_simps
        POSTS_FILE_def app_def node_at_def)
  have r: "remove_media app Posts (media_of photo_post) jammed = (Inl IOError, jammed)"
    by (simp add: remove_media_def photo_post_simps path_join_1png Let_def pathExists_def
        node_at_def jammed_simps stocked_simps remove_def)
  have s: "stored app Posts jammed = [photo_post]"
    by (simp add: stored_def node_at_def jammed_simps stocked_simps POSTS_FILE_def app_def)
  have "delete_handler app Posts 1 jammed =
      failed (delete_failed_log Posts) (delete_failed_msg Posts) jammed"
    using delete_handler_found [OF a] r by simp
  with s show ?thesis
    by (simp add: failed_def photo_post_simps stored_console_error)
qed

section \<open>Worlds with available storage\<close>

lemma node_at_data [simp]: "node_at w (data_file d c) = tree w (data_file d c)"
  by (simp add: node_at_def)

lemma healthy_data:
  "healthy d w \<Longrightarrow>
   tree w (data_file d c) = None \<or> (\<exists>ps. tree w (data_file d c) = Some (File (JsonText (JArr ps))))"
  unfolding healthy_def absent_def holds_def by (simp del: node_at_data add: node_at_data [symmetric])

lemma data_file_not_upload [simp]:
  "data_file d c \<noteq> UPLOAD_DIR d @ [n]" "UPLOAD_DIR d @ [n] \<noteq> data_file d c"
  "data_file d c \<noteq> UPLOAD_DIR d" "data_file d c \<noteq> d"
  by (cases c; simp add: POSTS_FILE_def PROJECTS_FILE_def UPLOAD_DIR_def)+

lemma data_file_inj [simp]: "(data_file d c = data_file d c') = (c = c')"
  by (cases c; cases c'; simp add: POSTS_FILE_def PROJECTS_FILE_def)

lemma upload_butlast [simp]: "butlast (UPLOAD_DIR d @ [n]) = UPLOAD_DIR d"
  by (simp add: butlast_append)

lemma healthy_writable_data: "healthy d w \<Longrightarrow> writable w (data_file d c)"
  using healthy_data [of d w c] by (auto simp: healthy_def writable_def)

lemma healthy_writable_upload: "healthy d w \<Longrightarrow> writable w (UPLOAD_DIR d @ [n])"
  by (simp add: healthy_def writable_def)

lemma healthy_readable: "healthy d w \<Longrightarrow> readable w p"
  by (simp add: healthy_def readable_def)

lemma node_at_upd:
  "p \<noteq> [] \<Longrightarrow>
   node_at (w\<lparr>tree := (tree w)(p \<mapsto> x)\<rparr>) q = (if q = p then Some x else node_at w q)"
  by (simp add: node_at_def)

lemma upload_paths [simp]:
  "UPLOAD_DIR d @ [n] \<noteq> []" "UPLOAD_DIR d \<noteq> UPLOAD_DIR d @ [n]" "d \<noteq> UPLOAD_DIR d @ [n]"
  "UPLOAD_DIR d \<noteq> data_file d c" "d \<noteq> data_file d c"
  "(UPLOAD_DIR d @ [n] = UPLOAD_DIR d @ [m]) = (n = m)"
  by (cases c; simp add: POSTS_FILE_def PROJECTS_FILE_def UPLOAD_DIR_def)+

lemma healthy_upload_write:
  "healthy d w \<Longrightarrow> healthy d (w\<lparr>tree := (tree w)(UPLOAD_DIR d @ [n] \<mapsto> File x)\<rparr>)"
  unfolding healthy_def absent_def holds_def
  by (simp add: node_at_upd)

lemma stored_upload_write:
  "stored d c (w\<lparr>tree := (tree w)(UPLOAD_DIR d @ [n] \<mapsto> File x)\<rparr>) = stored d c w"
  unfolding stored_def by (simp add: node_at_upd)

lemma healthy_data_write:
  "healthy d w \<Longrightarrow> healthy d (w\<lparr>tree := (tree w)(data_file d c \<mapsto> File (JsonText (JArr ps)))\<rparr>)"
  unfolding healthy_def absent_def holds_def
  by (simp add: node_at_upd)

lemma stored_data_write:
  "stored d c' (w\<lparr>tree := (tree w)(data_file d c \<mapsto> File (JsonText (JArr ps)))\<rparr>) =
     (if c' = c then ps else stored d c' w)"
  unfolding stored_def by (simp add: node_at_upd)

lemma healthy_console_log: "healthy d (console_log s w) = healthy d w"
  by (simp add: healthy_def console_log_def absent_def holds_def node_at_def)

lemma healthy_stored:
  "healthy d w \<Longrightarrow>
   absent w (data_file d c) \<and> stored d c w = [] \<or> holds w (data_file d c) (JArr (stored d c w))"
  using healthy_data [of d w c] by (auto simp: stored_def absent_def holds_def)

lemma loadData_healthy:
  assumes "healthy d w"
  shows "\<exists>w'. loadData (data_file d c) w = (Inr (JArr (stored d c w)), w') \<and> healthy d w'
           \<and> holds w' (data_file d c) (JArr (stored d c w))
           \<and> (\<forall>c'. stored d c' w' = stored d c' w)
           \<and> (\<forall>p. p \<noteq> data_file d c \<longrightarrow> tree w' p = tree w p)
           \<and> console w' = console w"
  using healthy_stored [OF assms, of c]
proof
  assume a: "absent w (data_file d c) \<and> stored d c w = []"
  then have "loadData (data_file d c) w =
      (Inr (JArr []), w\<lparr>tree := (tree w)(data_file d c \<mapsto> File (JsonText (JArr [])))\<rparr>)"
    using assms by (simp add: loadData_absent healthy_writable_data healthy_readable)
  with a assms show ?thesis
    by (auto simp: healthy_data_write stored_data_write holds_def)
next
  assume h: "holds w (data_file d c) (JArr (stored d c w))"
  then have "loadData (data_file d c) w = (Inr (JArr (stored d c w)), w)"
    using assms by (simp add: loadData_holds healthy_readable)
  with h assms show ?thesis by simp
qed

section \<open>Creating\<close>


lemma upload_single_healthy:
  assumes "healthy d w"
  shows "\<exists>w'. upload_single d t part w =
            (Inr (map_option (\<lambda>u. show_int t @ ''-'' @ replace_spaces (originalname u)) part), w')
          \<and> healthy d w' \<and> (\<forall>c. stored d c w' = stored d c w)"
proof (cases part)
  case None
  with assms show ?thesis by (simp add: upload_single_def)
next
  case (Some u)
  with assms show ?thesis
    by (simp add: upload_single_def Let_def writeFile_ok healthy_writable_upload
        healthy_upload_write stored_upload_write)
qed

lemma resolve_media_inline:
  assumes "healthy d w" "prefix ''data:image'' m"
  shows "resolve_media d t None (Some (JStr m)) w =
           (Inr (JStr (''/uploads/'' @ show_int t @ ''.png'')),
            w\<lparr>tree := (tree w)(UPLOAD_DIR d @ [show_int t @ ''.png''] \<mapsto> File (Base64 (base64Data m)))\<rparr>)"
proof -
  from assms(2) have "m \<noteq> []" by auto
  then show ?thesis
    using assms
    by (simp add: resolve_media_def Let_def path_join_file_name [OF png_file_name]
        writeFile_ok healthy_writable_upload)
qed

lemma resolve_media_healthy:
  assumes "healthy d w" "media_ok req"
  shows "\<exists>w'. resolve_media d (file_now clk)
            (map_option (\<lambda>u. show_int (upload_now clk) @ ''-'' @ replace_spaces (originalname u))
               (media_part req))
            (fmlookup (req_body req) ''media'') w = (Inr (media_ref clk req), w')
          \<and> healthy d w' \<and> (\<forall>c. stored d c w' = stored d c w)"
proof (cases "media_part req")
  case (Some u)
  with assms show ?thesis by (simp add: resolve_media_def media_ref_def)
next
  case None
  show ?thesis
  proof (cases "truthy (fmlookup (req_body req) ''media'')")
    case False
    with None assms(1) show ?thesis
      by (auto simp: resolve_media_def media_ref_def split: option.splits json.splits)
  next
    case True
    with None assms(2) obtain m where m: "fmlookup (req_body req) ''media'' = Some (JStr m)"
      by (auto simp: media_ok_def)
    show ?thesis
    proof (cases "prefix ''data:image'' m")
      case True
      with None m assms(1) show ?thesis
        by (simp add: resolve_media_inline media_ref_def healthy_upload_write stored_upload_write)
    next
      case False
      with None m assms(1) show ?thesis
        by (simp add: resolve_media_def media_ref_def)
    qed
  qed
qed

lemma post_handler_healthy:
  assumes "healthy d w1" "required c b" "resolve_media d (file_now clk) uploaded (fmlookup b ''media'') w = (Inr url, w1)"
  shows "\<exists>w'. post_handler d c clk b uploaded w = (\<lparr>status = 201, body = new_record c clk b url\<rparr>, w')
          \<and> healthy d w' \<and> stored d c w' = new_record c clk b url # stored d c w1
          \<and> (\<forall>p. p \<noteq> data_file d c \<longrightarrow> tree w' p = tree w1 p)"
proof -
  from loadData_healthy [OF assms(1), of c] obtain w2 where
    l: "loadData (data_file d c) w1 = (Inr (JArr (stored d c w1)), w2)" and h: "healthy d w2"
    and t: "\<forall>p. p \<noteq> data_file d c \<longrightarrow> tree w2 p = tree w1 p"
    by blast
  let ?w3 = "w2\<lparr>tree := (tree w2)(data_file d c \<mapsto>
      File (JsonText (JArr (new_record c clk b url # stored d c w1))))\<rparr>"
  have "post_handler d c clk b uploaded w =
      (\<lparr>status = 201, body = new_record c clk b url\<rparr>, console_log (added_log c) ?w3)"
    using assms(2,3) l h
    by (simp add: post_handler_def Let_def writeJson_def writeFile_ok healthy_writable_data)
  moreover have "healthy d (console_log (added_log c) ?w3)"
    using h by (simp add: healthy_console_log healthy_data_write)
  moreover have "stored d c (console_log (added_log c) ?w3) = new_record c clk b url # stored d c w1"
    by (simp add: stored_console_log stored_data_write)
  moreover have "\<forall>p. p \<noteq> data_file d c \<longrightarrow> tree (console_log (added_log c) ?w3) p = tree w1 p"
    using t by (simp add: console_log_def)
  ultimately show ?thesis by blast
qed

lemma post_route_healthy:
  assumes "healthy d w" "valid_create c req"
  shows "\<exists>w'. post_route d c clk req w =
            (\<lparr>status = 201, body = new_record c clk (req_body req) (media_ref clk req)\<rparr>, w')
          \<and> healthy d w'
          \<and> stored d c w' = new_record c clk (req_body req) (media_ref clk req) # stored d c w"
proof -
  from upload_single_healthy [OF assms(1), of "upload_now clk" "media_part req"]
  obtain w0 where u: "upload_single d (upload_now clk) (media_part req) w =
      (Inr (map_option (\<lambda>u. show_int (upload_now clk) @ ''-'' @ replace_spaces (originalname u))
        (media_part req)), w0)"
    and h0: "healthy d w0" and s0: "\<forall>c. stored d c w0 = stored d c w"
    by blast
  from assms(2) have v: "required c (req_body req)" "media_ok req"
    by (simp_all add: valid_create_def)
  from resolve_media_healthy [OF h0 v(2), of clk]
  obtain w1 where r: "resolve_media d (file_now clk)
            (map_option (\<lambda>u. show_int (upload_now clk) @ ''-'' @ replace_spaces (originalname u))
               (media_part req))
            (fmlookup (req_body req) ''media'') w0 = (Inr (media_ref clk req), w1)"
    and h1: "healthy d w1" and s1: "\<forall>c. stored d c w1 = stored d c w0"
    by blast
  from post_handler_healthy [OF h1 v(1) r]
  obtain w' where "post_handler d c clk (req_body req)
       (map_option (\<lambda>u. show_int (upload_now clk) @ ''-'' @ replace_spaces (originalname u))
               (media_part req)) w0 =
      (\<lparr>status = 201, body = new_record c clk (req_body req) (media_ref clk req)\<rparr>, w')"
    and "healthy d w'"
    and "stored d c w' = new_record c clk (req_body req) (media_ref clk req) # stored d c w1"
    by blast
  with u s0 s1 show ?thesis
    by (simp add: post_route_def)
qed


lemma healthy_started: "healthy app started"
  unfolding healthy_def absent_def holds_def
proof (intro conjI allI)
  fix c
  show "node_at started (data_file app c) = None \<or>
        (\<exists>ps. node_at started (data_file app c) = Some (File (JsonText (JArr ps))))"
    by (cases c) (simp_all add: started_simps app_def POSTS_FILE_def PROJECTS_FILE_def node_at_def)
qed (simp_all add: started_simps app_def UPLOAD_DIR_def node_at_def)

lemma stored_started: "stored app c started = []"
  by (cases c) (simp_all add: stored_def started_simps app_def POSTS_FILE_def PROJECTS_FILE_def node_at_def)




section \<open>Inline images\<close>










lemma base64Data_example: "base64Data ''data:image/png;base64,iVBOR'' = ''iVBOR''"
  by (simp add: base64Data_def split_def)



section \<open>Removing records\<close>

lemma ids_Cons:
  "ids (p # ps) = (case id_of p of None \<Rightarrow> ids ps | Some v \<Rightarrow> v # ids ps)"
  by (simp add: ids_def split: option.splits)

lemma has_id_in_ids: "q \<in> set ps \<Longrightarrow> has_id i q \<Longrightarrow> JNum i \<in> set (ids ps)"
  by (induction ps) (auto simp: ids_Cons has_id_def split: option.splits)

lemma unique_removes_one:
  "unique_ids ps \<Longrightarrow> find (has_id i) ps = Some p \<Longrightarrow>
   length ps = Suc (length (filter (\<lambda>q. \<not> has_id i q) ps))"
proof (induction ps)
  case Nil
  then show ?case by simp
next
  case (Cons a ps)
  show ?case
  proof (cases "has_id i a")
    case True
    with Cons.prems(1) have "JNum i \<notin> set (ids ps)"
      by (simp add: unique_ids_def ids_Cons has_id_def)
    then have "\<forall>q\<in>set ps. \<not> has_id i q"
      using has_id_in_ids by blast
    then have "filter (\<lambda>q. \<not> has_id i q) ps = ps"
      by (simp add: filter_id_conv)
    with True show ?thesis by simp
  next
    case False
    from Cons.prems(1) have "unique_ids ps"
      by (simp add: unique_ids_def ids_Cons split: option.splits)
    with Cons.IH Cons.prems(2) False show ?thesis by simp
  qed
qed

lemma prefix_upload_data [simp]:
  "\<not> prefix (d @ [''uploads'', n]) (data_file d c)" "\<not> prefix (d @ [''uploads'', n]) d"
  by (cases c; simp add: POSTS_FILE_def PROJECTS_FILE_def)+

lemma pathExists_cong:
  "node_at w' (fst x) = node_at w (fst x) \<Longrightarrow> pathExists w' x = pathExists w x"
  by (simp add: pathExists_def)

text \<open>The world after the media path of a record has been removed, if it was there.\<close>

lemma remove_media_any:
  assumes "prefix ''/uploads'' m" "(Remove, fst (path_join d m)) \<notin> faulty w"
    "fst (path_join d m) \<noteq> []"
  shows "\<exists>w'. remove_media d c (Some (JStr m)) w = (Inr (), w')
          \<and> faulty w' = faulty w
          \<and> \<not> pathExists w' (path_join d m)
          \<and> (\<forall>q. tree w' q = tree w q \<or> prefix (fst (path_join d m)) q)"
proof -
  from assms(1) have ne: "m \<noteq> []" by auto
  show ?thesis
  proof (cases "pathExists w (path_join d m)")
    case True
    let ?w' = "console_log (removed_image_log c)
        (w\<lparr>tree := (\<lambda>q. if prefix (fst (path_join d m)) q then None else tree w q)\<rparr>)"
    have "remove_media d c (Some (JStr m)) w = (Inr (), ?w')"
      using True assms(1,2) ne by (simp add: remove_media_def Let_def remove_def)
    moreover have "faulty ?w' = faulty w"
      by (simp add: console_log_def)
    moreover have "\<not> pathExists ?w' (path_join d m)"
      using assms(3) by (simp add: pathExists_def node_at_def console_log_def)
    moreover have "\<forall>q. tree ?w' q = tree w q \<or> prefix (fst (path_join d m)) q"
      by (simp add: console_log_def)
    ultimately show ?thesis by blast
  next
    case False
    let ?w' = "console_log (removed_image_log c) w"
    have "remove_media d c (Some (JStr m)) w = (Inr (), ?w')"
      using False assms(1) ne by (simp add: remove_media_def Let_def)
    moreover have "faulty ?w' = faulty w" "\<forall>q. tree ?w' q = tree w q \<or> prefix (fst (path_join d m)) q"
      by (simp_all add: console_log_def)
    moreover have "\<not> pathExists ?w' (path_join d m)"
      using False pathExists_cong [of ?w' "path_join d m" w]
      by (simp add: node_at_def console_log_def)
    ultimately show ?thesis by blast
  qed
qed

lemma prefix_data_file: "prefix q d \<Longrightarrow> prefix q (data_file d c)"
  by (cases c) (simp_all add: POSTS_FILE_def PROJECTS_FILE_def prefix_prefix)

lemma delete_handler_ok:
  assumes "holds w (data_file d c) (JArr ps)" "readable w (data_file d c)"
    "writable w (data_file d c)" "JNull \<notin> set ps" "find (has_id ident) ps = Some p"
    and media: "\<not> truthy (media_of p)
      \<or> (\<exists>m. media_of p = Some (JStr m)
            \<and> (\<not> prefix ''/uploads'' m
                \<or> (Remove, fst (path_join d m)) \<notin> faulty w
                  \<and> \<not> prefix (fst (path_join d m)) (data_file d c)))"
  shows "\<exists>w'. delete_handler d c ident w =
            (\<lparr>status = 200,
              body = JObj (fmap_of_list [(''message'', JStr (deleted_msg c)), (''id'', JNum ident)])\<rparr>,
             w')
          \<and> holds w' (data_file d c) (JArr (filter (\<lambda>q. \<not> has_id ident q) ps))
          \<and> readable w' (data_file d c)
          \<and> (\<forall>m. media_of p = Some (JStr m) \<and> prefix ''/uploads'' m \<longrightarrow>
                \<not> pathExists w' (path_join d m))
          \<and> (\<forall>q. q \<noteq> data_file d c \<longrightarrow>
                tree w' q = tree w q
                \<or> (\<exists>m. media_of p = Some (JStr m) \<and> prefix ''/uploads'' m
                      \<and> prefix (fst (path_join d m)) q))"
proof -
  let ?kept = "filter (\<lambda>q. \<not> has_id ident q) ps"
  let ?ok = "\<lparr>status = 200,
              body = JObj (fmap_of_list [(''message'', JStr (deleted_msg c)), (''id'', JNum ident)])\<rparr>"
  note found = delete_handler_found [OF assms(1,2,4,5)]
  have plain: ?thesis if r: "remove_media d c (media_of p) w = (Inr (), w)"
    and no: "\<forall>m. media_of p = Some (JStr m) \<longrightarrow> \<not> prefix ''/uploads'' m"
  proof -
    let ?w' = "console_log (deleted_log c)
        (w\<lparr>tree := (tree w)(data_file d c \<mapsto> File (JsonText (JArr ?kept)))\<rparr>)"
    have "delete_handler d c ident w = (?ok, ?w')"
      using found r assms(3) by (simp add: writeJson_def writeFile_ok)
    moreover have "holds ?w' (data_file d c) (JArr ?kept)" "readable ?w' (data_file d c)"
      using assms(2) by (simp_all add: holds_def readable_def console_log_def)
    moreover have "\<forall>q. q \<noteq> data_file d c \<longrightarrow> tree ?w' q = tree w q"
      by (simp add: console_log_def)
    ultimately show ?thesis using no by blast
  qed
  have elsewhere: ?thesis if m: "media_of p = Some (JStr m)" "\<not> prefix ''/uploads'' m" for m
  proof -
    from m have no: "\<forall>k. media_of p = Some (JStr k) \<longrightarrow> \<not> prefix ''/uploads'' k"
      by simp
    have "remove_media d c (media_of p) w = (Inr (), w)"
    proof (cases "m = []")
      case True
      with m(1) show ?thesis by (simp add: remove_media_falsy)
    next
      case False
      with m show ?thesis by (simp add: remove_media_elsewhere)
    qed
    with no show ?thesis by (intro plain)
  qed
  have removed: ?thesis if m: "media_of p = Some (JStr m)" "prefix ''/uploads'' m"
    "(Remove, fst (path_join d m)) \<notin> faulty w"
    "\<not> prefix (fst (path_join d m)) (data_file d c)" for m
  proof -
    let ?fp = "fst (path_join d m)"
    from m(4) have ne: "?fp \<noteq> []" by auto
    from m(4) have nd: "\<not> prefix ?fp d"
      using prefix_data_file by blast
    from m(4) have nf: "?fp \<noteq> data_file d c" by auto
    from remove_media_any [OF m(2,3) ne, of c]
    obtain w2 where r: "remove_media d c (Some (JStr m)) w = (Inr (), w2)"
      and fa: "faulty w2 = faulty w" and gone: "\<not> pathExists w2 (path_join d m)"
      and rest: "\<forall>q. tree w2 q = tree w q \<or> prefix ?fp q"
      by blast
    from rest m(4) nd have same: "tree w2 (data_file d c) = tree w (data_file d c)"
      "tree w2 d = tree w d"
      by blast+
    have wr: "writable w2 (data_file d c)"
      using assms(3) fa same by (auto simp: writable_def node_at_def split: if_splits)
    let ?w' = "console_log (deleted_log c)
        (w2\<lparr>tree := (tree w2)(data_file d c \<mapsto> File (JsonText (JArr ?kept)))\<rparr>)"
    have "delete_handler d c ident w = (?ok, ?w')"
      using found r m(1) wr by (simp add: writeJson_def writeFile_ok)
    moreover have "holds ?w' (data_file d c) (JArr ?kept)" "readable ?w' (data_file d c)"
      using assms(2) fa by (simp_all add: holds_def readable_def console_log_def)
    moreover have "\<not> pathExists ?w' (path_join d m)"
      using gone nf pathExists_cong [of ?w' "path_join d m" w2]
      by (simp add: node_at_def console_log_def)
    moreover have "k = m" if "media_of p = Some (JStr k)" for k
      using that m(1) by simp
    moreover have "\<forall>q. q \<noteq> data_file d c \<longrightarrow> tree ?w' q = tree w q \<or> prefix ?fp q"
      using rest by (simp add: console_log_def)
    ultimately show ?thesis using m(1,2) by blast
  qed
  from media consider "\<not> truthy (media_of p)"
    | m where "media_of p = Some (JStr m)" "\<not> prefix ''/uploads'' m"
    | m where "media_of p = Some (JStr m)" "prefix ''/uploads'' m"
        "(Remove, fst (path_join d m)) \<notin> faulty w"
        "\<not> prefix (fst (path_join d m)) (data_file d c)"
    by blast
  then show ?thesis
  proof cases
    case 1
    then have "\<forall>m. media_of p = Some (JStr m) \<longrightarrow> \<not> prefix ''/uploads'' m"
      by auto
    with 1 show ?thesis
      by (intro plain) (simp_all add: remove_media_falsy)
  next
    case 2
    then show ?thesis by (rule elsewhere)
  next
    case 3
    then show ?thesis by (rule removed)
  qed
qed

lemma delete_posts_reduced_found:
  assumes "holds w (POSTS_FILE d) (JArr ps)" "readable w (POSTS_FILE d)"
    "writable w (POSTS_FILE d)" "JNull \<notin> set ps" "find (has_id ident) ps = Some p"
  shows "delete_posts_reduced d ident w =
     (\<lparr>status = 200, body = JObj (fmap_of_list [(''message'', JStr ''Post deleted'')])\<rparr>,
      w\<lparr>tree := (tree w)(POSTS_FILE d \<mapsto>
           File (JsonText (JArr (filter (\<lambda>q. \<not> has_id ident q) ps))))\<rparr>)"
proof -
  from find_has_id [OF assms(5)] have "length (filter (\<lambda>q. \<not> has_id ident q) ps) < length ps"
    by (intro length_filter_less [of p]) simp_all
  then show ?thesis
    using assms
    by (simp add: delete_posts_reduced_def loadData_holds filter_by_id_records
        writeJson_def writeFile_ok)
qed

text \<open>
  C3, as amended. Let the backing file hold an array of records, none of them null and
  one of them with the id, let the storage accept the reading and the writing of the
  backing file, and let the media of the first record with the id be absent or falsy, or
  a string that does not start with \<open>/uploads\<close>, or a string that starts with \<open>/uploads\<close>
  whose path under the server directory the storage allows to be removed and is neither
  the backing file nor a directory above it. Then a delete of the id removes every record
  with that id from the collection: exactly one when the ids of the collection are
  unique. It is answered with 200, and a listing right after it holds the remaining
  records, none of which has the id. In the full server, when the media of the first
  record with the id starts with \<open>/uploads\<close>, nothing exists at its path after the call:
  for a media \<open>/uploads/<file name>\<close>, no file of that name is left in the uploads
  directory. Nothing else is touched: apart from the backing file, only paths at or below
  the media path of that first record change, so a media that is absent, falsy or outside
  \<open>/uploads\<close> touches no file, and the media files of further records with the same id
  stay on disk unless they lie at or below that path. The delete route for posts of the
  reduced server removes the same records and changes nothing but the backing file, so
  it leaves every media file where it is.
\<close>

theorem delete_handler_removes:
  assumes "holds w (data_file d c) (JArr ps)" "readable w (data_file d c)"
    "writable w (data_file d c)" "JNull \<notin> set ps" "find (has_id ident) ps = Some p"
    "\<not> truthy (media_of p)
      \<or> (\<exists>m. media_of p = Some (JStr m)
            \<and> (\<not> prefix ''/uploads'' m
                \<or> (Remove, fst (path_join d m)) \<notin> faulty w
                  \<and> \<not> prefix (fst (path_join d m)) (data_file d c)))"
  shows "let kept = filter (\<lambda>q. \<not> has_id ident q) ps; result = delete_handler d c ident w
         in status (fst result) = 200
            \<and> stored d c (snd result) = kept
            \<and> fst (get_handler d c (snd result)) = \<lparr>status = 200, body = JArr kept\<rparr>
            \<and> (\<forall>q\<in>set kept. \<not> has_id ident q)
            \<and> (unique_ids ps \<longrightarrow> length ps = Suc (length kept))
            \<and> (\<forall>n. media_of p = Some (JStr (''/uploads/'' @ n)) \<and> file_name n \<longrightarrow>
                  node_at (snd result) (UPLOAD_DIR d @ [n]) = None)
            \<and> (c = Posts \<longrightarrow>
                  delete_posts_reduced d ident w =
                    (\<lparr>status = 200,
                      body = JObj (fmap_of_list [(''message'', JStr ''Post deleted'')])\<rparr>,
                     w\<lparr>tree := (tree w)(POSTS_FILE d \<mapsto> File (JsonText (JArr kept)))\<rparr>))
            \<and> (\<forall>m. media_of p = Some (JStr m) \<and> prefix ''/uploads'' m \<longrightarrow>
                  \<not> pathExists (snd result) (path_join d m))
            \<and> (\<forall>q. q \<noteq> data_file d c \<longrightarrow>
                  tree (snd result) q = tree w q
                  \<or> (\<exists>m. media_of p = Some (JStr m) \<and> prefix ''/uploads'' m
                        \<and> prefix (fst (path_join d m)) q))"
proof -
  let ?kept = "filter (\<lambda>q. \<not> has_id ident q) ps"
  from delete_handler_ok [OF assms]
  obtain w' where r: "delete_handler d c ident w =
            (\<lparr>status = 200,
              body = JObj (fmap_of_list [(''message'', JStr (deleted_msg c)), (''id'', JNum ident)])\<rparr>,
             w')"
    and h: "holds w' (data_file d c) (JArr ?kept)" and rd: "readable w' (data_file d c)"
    and g: "\<forall>m. media_of p = Some (JStr m) \<and> prefix ''/uploads'' m \<longrightarrow>
                \<not> pathExists w' (path_join d m)"
    and fr: "\<forall>q. q \<noteq> data_file d c \<longrightarrow>
                tree w' q = tree w q
                \<or> (\<exists>m. media_of p = Some (JStr m) \<and> prefix ''/uploads'' m
                      \<and> prefix (fst (path_join d m)) q)"
    by blast
  have s: "stored d c w' = ?kept"
    using h by (simp add: stored_def holds_def)
  have l: "fst (get_handler d c w') = \<lparr>status = 200, body = JArr ?kept\<rparr>"
    using h rd by (simp add: get_handler_def loadData_holds)
  have u: "unique_ids ps \<longrightarrow> length ps = Suc (length ?kept)"
    using unique_removes_one [OF _ assms(5)] by blast
  have v: "c = Posts \<longrightarrow>
      delete_posts_reduced d ident w =
        (\<lparr>status = 200, body = JObj (fmap_of_list [(''message'', JStr ''Post deleted'')])\<rparr>,
         w\<lparr>tree := (tree w)(POSTS_FILE d \<mapsto> File (JsonText (JArr ?kept)))\<rparr>)"
    using delete_posts_reduced_found [of w d ps ident p] assms(1-5) by auto
  have n: "node_at w' (UPLOAD_DIR d @ [n]) = None"
    if m: "media_of p = Some (JStr (''/uploads/'' @ n))" "file_name n" for n
  proof -
    have "prefix ''/uploads'' (''/uploads/'' @ n)"
      by simp
    with g m(1) have "\<not> pathExists w' (path_join d (''/uploads/'' @ n))"
      by blast
    then show ?thesis
      unfolding path_join_upload_ref [OF m(2)]
      by (simp add: pathExists_def UPLOAD_DIR_def split: option.splits node.splits)
  qed
  have k: "\<forall>q\<in>set ?kept. \<not> has_id ident q"
    by simp
  have r1: "fst (delete_handler d c ident w) =
      \<lparr>status = 200,
        body = JObj (fmap_of_list [(''message'', JStr (deleted_msg c)), (''id'', JNum ident)])\<rparr>"
    and r2: "snd (delete_handler d c ident w) = w'"
    by (simp_all add: r)
  have st: "status (fst (delete_handler d c ident w)) = 200"
    by (simp add: r1)
  show ?thesis
    unfolding Let_def r2
    using n by (intro conjI st s l k u v g fr) blast
qed

theorem delete_handler_removes_witness:
  "holds stocked (data_file app Posts) (JArr [photo_post])
   \<and> readable stocked (data_file app Posts) \<and> writable stocked (data_file app Posts)
   \<and> JNull \<notin> set [photo_post] \<and> find (has_id 1) [photo_post] = Some photo_post
   \<and> media_of photo_post = Some (JStr ''/uploads/1.png'') \<and> prefix ''/uploads'' ''/uploads/1.png''
   \<and> file_name ''1.png''
   \<and> path_join app ''/uploads/1.png'' = (UPLOAD_DIR app @ [''1.png''], False)
   \<and> (Remove, UPLOAD_DIR app @ [''1.png'']) \<notin> faulty stocked
   \<and> \<not> prefix (UPLOAD_DIR app @ [''1.png'']) (data_file app Posts)
   \<and> unique_ids [photo_post]
   \<and> node_at stocked (UPLOAD_DIR app @ [''1.png'']) = Some (File (Base64 ''iVBOR''))
   \<and> status (fst (delete_handler app Posts 1 stocked)) = 200
   \<and> stored app Posts (snd (delete_handler app Posts 1 stocked)) = []
   \<and> fst (get_handler app Posts (snd (delete_handler app Posts 1 stocked)))
       = \<lparr>status = 200, body = JArr []\<rparr>
   \<and> node_at (snd (delete_handler app Posts 1 stocked)) (UPLOAD_DIR app @ [''1.png'']) = None
   \<and> \<not> pathExists (snd (delete_handler app Posts 1 stocked)) (path_join app ''/uploads/1.png'')
   \<and> tree (snd (delete_posts_reduced app 1 stocked)) (UPLOAD_DIR app @ [''1.png''])
       = Some (File (Base64 ''iVBOR''))"
proof -
  have a: "holds stocked (data_file app Posts) (JArr [photo_post])"
    "readable stocked (data_file app Posts)" "writable stocked (data_file app Posts)"
    "JNull \<notin> set [photo_post]" "find (has_id 1) [photo_post] = Some photo_post"
    using stocked_ready by (simp_all add: photo_post_simps)
  have b: "media_of photo_post = Some (JStr ''/uploads/1.png'')"
    "prefix ''/uploads'' ''/uploads/1.png''" "file_name ''1.png''"
    by (simp_all add: photo_post_simps file_name_def)
  have pj: "path_join app ''/uploads/1.png'' = (UPLOAD_DIR app @ [''1.png''], False)"
    unfolding path_join_1png by (simp add: UPLOAD_DIR_def app_def)
  have e: "(Remove, UPLOAD_DIR app @ [''1.png'']) \<notin> faulty stocked"
    "\<not> prefix (UPLOAD_DIR app @ [''1.png'']) (data_file app Posts)"
    by (simp_all add: stocked_simps UPLOAD_DIR_def POSTS_FILE_def app_def)
  have u: "unique_ids [photo_post]"
    by (simp add: unique_ids_def ids_Cons split: option.splits) (simp add: ids_def)
  have n: "node_at stocked (UPLOAD_DIR app @ [''1.png'']) = Some (File (Base64 ''iVBOR''))"
    by (simp add: stocked_simps UPLOAD_DIR_def app_def node_at_def)
  from b(1) e have m: "\<not> truthy (media_of photo_post)
      \<or> (\<exists>m. media_of photo_post = Some (JStr m)
            \<and> (\<not> prefix ''/uploads'' m
                \<or> (Remove, fst (path_join app m)) \<notin> faulty stocked
                  \<and> \<not> prefix (fst (path_join app m)) (data_file app Posts)))"
    by (simp add: pj)
  note t = delete_handler_removes [OF a m, unfolded Let_def]
  have k: "filter (\<lambda>q. \<not> has_id 1 q) [photo_post] = []"
    by (simp add: photo_post_simps)
  have t1: "status (fst (delete_handler app Posts 1 stocked)) = 200"
    by (rule t [THEN conjunct1])
  have t2: "stored app Posts (snd (delete_handler app Posts 1 stocked)) = []"
    using t [THEN conjunct2, THEN conjunct1] unfolding k .
  have t3: "fst (get_handler app Posts (snd (delete_handler app Posts 1 stocked)))
       = \<lparr>status = 200, body = JArr []\<rparr>"
    using t [THEN conjunct2, THEN conjunct2, THEN conjunct1] unfolding k .
  have b': "media_of photo_post = Some (JStr (''/uploads/'' @ ''1.png''))"
    using b(1) by simp
  have t4: "node_at (snd (delete_handler app Posts 1 stocked)) (UPLOAD_DIR app @ [''1.png''])
      = None"
    using t [THEN conjunct2, THEN conjunct2, THEN conjunct2, THEN conjunct2, THEN conjunct2,
        THEN conjunct1, rule_format, of "''1.png''"] b' b(3)
    by blast
  have t6: "\<not> pathExists (snd (delete_handler app Posts 1 stocked))
      (path_join app ''/uploads/1.png'')"
    using t [THEN conjunct2, THEN conjunct2, THEN conjunct2, THEN conjunct2, THEN conjunct2,
        THEN conjunct2, THEN conjunct2, THEN conjunct1, rule_format, of "''/uploads/1.png''"]
      b(1,2)
    by blast
  have "delete_posts_reduced app 1 stocked =
      (\<lparr>status = 200, body = JObj (fmap_of_list [(''message'', JStr ''Post deleted'')])\<rparr>,
       stocked\<lparr>tree := (tree stocked)(POSTS_FILE app \<mapsto> File (JsonText (JArr [])))\<rparr>)"
    using t [THEN conjunct2, THEN conjunct2, THEN conjunct2, THEN conjunct2, THEN conjunct2,
        THEN conjunct2, THEN conjunct1] unfolding k by simp
  then have t5: "tree (snd (delete_posts_reduced app 1 stocked)) (UPLOAD_DIR app @ [''1.png''])
       = Some (File (Base64 ''iVBOR''))"
    by (simp add: stocked_simps UPLOAD_DIR_def POSTS_FILE_def app_def)
  show ?thesis
    by (intro conjI a b pj e u n t1 t2 t3 t4 t6 t5)
qed

text \<open>Two creates that read the same clock value.\<close>

lemma twice_created:
  "\<exists>w'. post_many app Posts [(noon, titled), (noon, titled)] started
          = ([\<lparr>status = 201, body = new_record Posts noon (req_body titled) JNull\<rparr>,
              \<lparr>status = 201, body = new_record Posts noon (req_body titled) JNull\<rparr>], w')
        \<and> healthy app w'
        \<and> stored app Posts w' = [new_record Posts noon (req_body titled) JNull,
                                  new_record Posts noon (req_body titled) JNull]"
proof -
  have v: "valid_create Posts titled"
    by (simp add: valid_create_def media_ok_def titled_def)
  have m: "media_ref noon titled = JNull"
    by (simp add: media_ref_def titled_def)
  from post_route_healthy [OF healthy_started v, of noon]
  obtain w1 where 1: "post_route app Posts noon titled started =
      (\<lparr>status = 201, body = new_record Posts noon (req_body titled) JNull\<rparr>, w1)"
    and h1: "healthy app w1"
    and s1: "stored app Posts w1 = [new_record Posts noon (req_body titled) JNull]"
    by (auto simp: m stored_started)
  from post_route_healthy [OF h1 v, of noon]
  obtain w2 where 2: "post_route app Posts noon titled w1 =
      (\<lparr>status = 201, body = new_record Posts noon (req_body titled) JNull\<rparr>, w2)"
    and h2: "healthy app w2"
    and s2: "stored app Posts w2 = [new_record Posts noon (req_body titled) JNull,
                                  new_record Posts noon (req_body titled) JNull]"
    by (auto simp: m s1)
  from 1 2 h2 s2 show ?thesis by simp
qed



lemma noon_record:
  "new_record Posts noon (req_body titled) JNull \<noteq> JNull"
  "has_id 5 (new_record Posts noon (req_body titled) JNull)"
  "id_of (new_record Posts noon (req_body titled) JNull) = Some (JNum 5)"
  "media_of (new_record Posts noon (req_body titled) JNull) = Some JNull"
  by (simp_all add: has_id_def id_of_def media_of_def noon_def)

text \<open>
  C3 as stated fails: after two creates that read the same clock value the collection
  holds two records with the id 5, and one delete of that id removes both.
\<close>

theorem delete_removes_two:
  "map status (fst (post_many app Posts [(noon, titled), (noon, titled)] started)) = [201, 201]
   \<and> length (stored app Posts (snd (post_many app Posts [(noon, titled), (noon, titled)] started))) = 2
   \<and> status (fst (delete_handler app Posts 5
        (snd (post_many app Posts [(noon, titled), (noon, titled)] started)))) = 200
   \<and> stored app Posts (snd (delete_handler app Posts 5
        (snd (post_many app Posts [(noon, titled), (noon, titled)] started)))) = []"
proof -
  define r where "r = new_record Posts noon (req_body titled) JNull"
  note rec = noon_record [folded r_def]
  from twice_created [folded r_def] obtain w' where
    p: "post_many app Posts [(noon, titled), (noon, titled)] started
          = ([\<lparr>status = 201, body = r\<rparr>, \<lparr>status = 201, body = r\<rparr>], w')"
    and h: "healthy app w'" and s: "stored app Posts w' = [r, r]"
    by blast
  from healthy_stored [OF h, of Posts] s have ho: "holds w' (data_file app Posts) (JArr [r, r])"
    by auto
  have a: "readable w' (data_file app Posts)" "writable w' (data_file app Posts)"
    by (rule healthy_readable [OF h], rule healthy_writable_data [OF h])
  have b: "JNull \<notin> set [r, r]" "find (has_id 5) [r, r] = Some r"
    using rec(1) by (auto simp: rec(2))
  have c: "\<not> truthy (media_of r)
      \<or> (\<exists>m. media_of r = Some (JStr m)
            \<and> (\<not> prefix ''/uploads'' m
                \<or> (Remove, fst (path_join app m)) \<notin> faulty w'
                  \<and> \<not> prefix (fst (path_join app m)) (data_file app Posts)))"
    by (simp add: rec(4))
  from delete_handler_ok [OF ho a b c]
  have d: "status (fst (delete_handler app Posts 5 w')) = 200"
    and k: "holds (snd (delete_handler app Posts 5 w')) (data_file app Posts)
      (JArr (filter (\<lambda>q. \<not> has_id 5 q) [r, r]))"
    by auto
  from k have "stored app Posts (snd (delete_handler app Posts 5 w')) = []"
    by (simp add: stored_def holds_def rec(2))
  with p s d show ?thesis by simp
qed

section \<open>Uniqueness of ids\<close>

lemma stored_cong:
  "tree w' (data_file d c) = tree w (data_file d c) \<Longrightarrow> stored d c w' = stored d c w"
  by (simp add: stored_def)





































end
